theory Spec2Isabelle
  imports Main "HOL-Library.Monad_Syntax"
begin

section \<open>The BAT buffer pool of gdk\_bbp.c\<close>

text \<open>
  A shallow embedding of the parts of \<^verbatim>\<open>gdk/gdk_bbp.c\<close> that decide the
  properties proved below.  Functions keep the names of the C source.  C functions that
  change the pool take the state and return the new one; a function that can wait for a
  status bit returns an \<open>option\<close>, \<open>None\<close> meaning that the call never returns when no
  other thread clears the bit.
\<close>

subsection \<open>Compile-time constants\<close>

text \<open>
  The constants below are defined in \<^verbatim>\<open>gdk.h\<close> and \<^verbatim>\<open>monetdb_config.h\<close>, which are
  not among the sources; they are taken as parameters.
\<close>

record config =
  GDKLIBRARY :: nat
  GDKLIBRARY_TAILN :: nat
  GDKLIBRARY_MINMAX_POS :: nat
  SIZEOF_SIZE_T :: int
  SIZEOF_OID :: int
  SIZEOF_MAX_INT :: int
  N_BBPINIT :: nat
  BBPINITLOG :: nat
  FILENAME_MAX :: nat
  IDLENGTH :: nat
  sizeof_bak :: nat

definition BBPINIT :: "config \<Rightarrow> nat" where
  "BBPINIT cfg = 2 ^ BBPINITLOG cfg"

datatype gdk_return = GDK_FAIL | GDK_SUCCEED

subsection \<open>The header of BBP.dir\<close>

text \<open>
  \<^verbatim>\<open>BBPheader\<close> reads the file with \<^verbatim>\<open>fgets\<close> and takes each line apart with one
  \<^verbatim>\<open>sscanf\<close> format.  A line is represented by what the four formats make of it:
  \<open>L_version v\<close> is a line on which \<^verbatim>\<open>"BBP.dir, GDKversion %u\n"\<close> converts one item,
  \<open>L_sizes p o m\<close> one on which \<^verbatim>\<open>"%d %d %d"\<close> converts three, \<open>L_bbpsize n\<close> one on
  which \<^verbatim>\<open>"BBPsize=%d"\<close> converts one, \<open>L_info l t\<close> one on which
  \<^verbatim>\<open>"BBPinfo=%lld %lld"\<close> converts two, and \<open>L_other\<close> any other line: every format
  fails on it.  The file is the list of its remaining lines; \<^verbatim>\<open>fgets\<close> returns NULL on
  the empty list.
\<close>

datatype bbp_line =
    L_version nat
  | L_sizes int int int
  | L_bbpsize int
  | L_info int int
  | L_other string

text \<open>The messages that \<^verbatim>\<open>BBPheader\<close> logs before it returns 0, with their arguments.\<close>

datatype header_error =
    Empty_BBP_dir  \<comment> \<open>"BBP.dir is empty"\<close>
  | No_version  \<comment> \<open>"old BBP without version number; dump the database ..."\<close>
  | Incompatible_version nat nat bool
      \<comment> \<open>"incompatible BBP version: expected 0%o, got 0%o. This database was probably
          created by a %s version of MonetDB.": expected, got, and whether "newer"\<close>
  | Short_BBP  \<comment> \<open>"short BBP"\<close>
  | Sizes_missing int
      \<comment> \<open>"BBP.dir has incompatible format: pointer, OID, and max. integer sizes are
          missing on line %d"\<close>
  | Incompatible_server int int int int
      \<comment> \<open>"database created with incompatible server: expected pointer size %d, got %d,
          expected OID size %d, got %d."\<close>
  | Incompatible_intsize int int
      \<comment> \<open>"database created with incompatible server: expected max. integer size %d,
          got %d."\<close>
  | No_BBPsize  \<comment> \<open>"no BBPsize value found"\<close>
  | No_info  \<comment> \<open>"no info value found"\<close>

text \<open>What a successful call leaves behind: the return value and the out parameters.\<close>

record header =
  hd_version :: nat
  hd_lineno :: int
  hd_bbpsize :: int
  hd_logno :: int
  hd_transid :: int
  hd_rest :: "bbp_line list"

definition BBPheader ::
  "config \<Rightarrow> bbp_line list \<Rightarrow> int \<Rightarrow> int \<Rightarrow> header_error + header" where
  "BBPheader cfg fp lineno bbpsize =
    (case fp of
       [] \<Rightarrow> Inl Empty_BBP_dir
     | l1 # fp1 \<Rightarrow>
        (case l1 of
           L_version bbpversion \<Rightarrow>
             if bbpversion \<noteq> GDKLIBRARY cfg \<and>
                bbpversion \<noteq> GDKLIBRARY_TAILN cfg \<and>
                bbpversion \<noteq> GDKLIBRARY_MINMAX_POS cfg
             then Inl (Incompatible_version (GDKLIBRARY cfg) bbpversion
                         (bbpversion > GDKLIBRARY cfg))
             else
              (case fp1 of
                 [] \<Rightarrow> Inl Short_BBP
               | l2 # fp2 \<Rightarrow>
                  (case l2 of
                     L_sizes ptrsize oidsize intsize \<Rightarrow>
                       if ptrsize \<noteq> SIZEOF_SIZE_T cfg \<or> oidsize \<noteq> SIZEOF_OID cfg
                       then Inl (Incompatible_server (SIZEOF_SIZE_T cfg) ptrsize
                                   (SIZEOF_OID cfg) oidsize)
                       else if intsize > SIZEOF_MAX_INT cfg
                       then Inl (Incompatible_intsize (SIZEOF_MAX_INT cfg) intsize)
                       else
                        (case fp2 of
                           [] \<Rightarrow> Inl Short_BBP
                         | l3 # fp3 \<Rightarrow>
                            (case l3 of
                               L_bbpsize sz \<Rightarrow>
                                 let bbpsize' = (if sz > bbpsize then sz else bbpsize) in
                                 if bbpversion > GDKLIBRARY_MINMAX_POS cfg
                                 then
                                  (case fp3 of
                                     [] \<Rightarrow> Inl Short_BBP
                                   | l4 # fp4 \<Rightarrow>
                                      (case l4 of
                                         L_info logno transid \<Rightarrow>
                                           Inr \<lparr>hd_version = bbpversion,
                                                hd_lineno = lineno + 3,
                                                hd_bbpsize = bbpsize',
                                                hd_logno = logno,
                                                hd_transid = transid,
                                                hd_rest = fp4\<rparr>
                                       | _ \<Rightarrow> Inl No_info))
                                 else Inr \<lparr>hd_version = bbpversion,
                                           hd_lineno = lineno + 3,
                                           hd_bbpsize = bbpsize',
                                           hd_logno = 0,
                                           hd_transid = 0,
                                           hd_rest = fp3\<rparr>
                             | _ \<Rightarrow> Inl No_BBPsize))
                   | _ \<Rightarrow> Inl (Sizes_missing (lineno + 2))))
         | _ \<Rightarrow> Inl No_version))"

text \<open>The value the C function returns: the version, or 0 after an error.\<close>

definition BBPheader_ret :: "header_error + header \<Rightarrow> nat" where
  "BBPheader_ret r = (case r of Inl _ \<Rightarrow> 0 | Inr h \<Rightarrow> hd_version h)"


text \<open>An example of the constants (a 64-bit build) and of a current header.\<close>

definition cfg64 :: config where
  "cfg64 = \<lparr>GDKLIBRARY = 25124, GDKLIBRARY_TAILN = 25123, GDKLIBRARY_MINMAX_POS = 25122,
            SIZEOF_SIZE_T = 8, SIZEOF_OID = 8, SIZEOF_MAX_INT = 16,
            N_BBPINIT = 10000, BBPINITLOG = 14, FILENAME_MAX = 4096, IDLENGTH = 64,
            sizeof_bak = 16\<rparr>"

text \<open>
  Claim C7.  \<^verbatim>\<open>BBPheader\<close> accepts a file exactly when its first line carries one of the
  three versions \<open>GDKLIBRARY\<close>, \<open>GDKLIBRARY_TAILN\<close>, \<open>GDKLIBRARY_MINMAX_POS\<close>, its
  second line records the pointer size and the OID size of the running engine and a
  max-int size that is not larger than the supported one, its third line gives the BBP
  size, and (for a version after \<open>GDKLIBRARY_MINMAX_POS\<close>) a fourth line gives the
  BBPinfo.  A file with any other version is rejected with the "incompatible BBP version"
  message, which names the expected and the found version; a file with another pointer or
  OID size, or a larger max-int size, is rejected with the "incompatible server" message.
\<close>

theorem BBPheader_gate:
  "((\<exists>h. BBPheader cfg fp lineno bbpsize = Inr h) \<longleftrightarrow>
     (\<exists>v p oo m sz rest.
        fp = L_version v # L_sizes p oo m # L_bbpsize sz # rest \<and>
        (v = GDKLIBRARY cfg \<or> v = GDKLIBRARY_TAILN cfg \<or> v = GDKLIBRARY_MINMAX_POS cfg) \<and>
        p = SIZEOF_SIZE_T cfg \<and> oo = SIZEOF_OID cfg \<and> m \<le> SIZEOF_MAX_INT cfg \<and>
        (v > GDKLIBRARY_MINMAX_POS cfg \<longrightarrow> (\<exists>l t rest'. rest = L_info l t # rest'))))
   \<and> (\<forall>v rest.
        fp = L_version v # rest \<and> v \<noteq> GDKLIBRARY cfg \<and> v \<noteq> GDKLIBRARY_TAILN cfg \<and>
        v \<noteq> GDKLIBRARY_MINMAX_POS cfg \<longrightarrow>
        BBPheader cfg fp lineno bbpsize =
          Inl (Incompatible_version (GDKLIBRARY cfg) v (v > GDKLIBRARY cfg)))
   \<and> (\<forall>v p oo m rest.
        fp = L_version v # L_sizes p oo m # rest \<and>
        (v = GDKLIBRARY cfg \<or> v = GDKLIBRARY_TAILN cfg \<or> v = GDKLIBRARY_MINMAX_POS cfg) \<and>
        (p \<noteq> SIZEOF_SIZE_T cfg \<or> oo \<noteq> SIZEOF_OID cfg) \<longrightarrow>
        BBPheader cfg fp lineno bbpsize =
          Inl (Incompatible_server (SIZEOF_SIZE_T cfg) p (SIZEOF_OID cfg) oo))
   \<and> (\<forall>v m rest.
        fp = L_version v # L_sizes (SIZEOF_SIZE_T cfg) (SIZEOF_OID cfg) m # rest \<and>
        (v = GDKLIBRARY cfg \<or> v = GDKLIBRARY_TAILN cfg \<or> v = GDKLIBRARY_MINMAX_POS cfg) \<and>
        m > SIZEOF_MAX_INT cfg \<longrightarrow>
        BBPheader cfg fp lineno bbpsize =
          Inl (Incompatible_intsize (SIZEOF_MAX_INT cfg) m))
   \<and> (\<forall>e. BBPheader cfg fp lineno bbpsize = Inl e \<longrightarrow>
          BBPheader_ret (BBPheader cfg fp lineno bbpsize) = 0)"
proof (intro conjI)
  show "(\<exists>h. BBPheader cfg fp lineno bbpsize = Inr h) \<longleftrightarrow>
     (\<exists>v p oo m sz rest.
        fp = L_version v # L_sizes p oo m # L_bbpsize sz # rest \<and>
        (v = GDKLIBRARY cfg \<or> v = GDKLIBRARY_TAILN cfg \<or> v = GDKLIBRARY_MINMAX_POS cfg) \<and>
        p = SIZEOF_SIZE_T cfg \<and> oo = SIZEOF_OID cfg \<and> m \<le> SIZEOF_MAX_INT cfg \<and>
        (v > GDKLIBRARY_MINMAX_POS cfg \<longrightarrow> (\<exists>l t rest'. rest = L_info l t # rest')))"
    by (auto simp: BBPheader_def Let_def split: list.splits bbp_line.splits if_splits)
qed (auto simp: BBPheader_def BBPheader_ret_def)

theorem BBPheader_gate_witness:
  "(\<exists>h. BBPheader cfg64 [L_version 25124, L_sizes 8 8 16, L_bbpsize 5, L_info 7 9] 0 1 = Inr h)
   \<and> (\<exists>h. BBPheader cfg64 [L_version 25123, L_sizes 8 8 8, L_bbpsize 5, L_info 7 9] 0 1 = Inr h)
   \<and> (\<exists>h. BBPheader cfg64 [L_version 25122, L_sizes 8 8 8, L_bbpsize 5] 0 1 = Inr h)
   \<and> BBPheader cfg64 [L_version 25121, L_sizes 8 8 8, L_bbpsize 5] 0 1 =
       Inl (Incompatible_version 25124 25121 False)
   \<and> BBPheader cfg64 [L_version 25124, L_sizes 4 8 8, L_bbpsize 5, L_info 7 9] 0 1 =
       Inl (Incompatible_server 8 4 8 8)
   \<and> BBPheader cfg64 [L_version 25124, L_sizes 8 8 32, L_bbpsize 5, L_info 7 9] 0 1 =
       Inl (Incompatible_intsize 16 32)"
proof (intro conjI)
  show "\<exists>h. BBPheader cfg64 [L_version 25124, L_sizes 8 8 16, L_bbpsize 5, L_info 7 9] 0 1 = Inr h"
    using BBPheader_gate [of cfg64 "[L_version 25124, L_sizes 8 8 16, L_bbpsize 5, L_info 7 9]" 0 1]
    by (simp add: cfg64_def)
  show "\<exists>h. BBPheader cfg64 [L_version 25123, L_sizes 8 8 8, L_bbpsize 5, L_info 7 9] 0 1 = Inr h"
    using BBPheader_gate [of cfg64 "[L_version 25123, L_sizes 8 8 8, L_bbpsize 5, L_info 7 9]" 0 1]
    by (simp add: cfg64_def)
  show "\<exists>h. BBPheader cfg64 [L_version 25122, L_sizes 8 8 8, L_bbpsize 5] 0 1 = Inr h"
    using BBPheader_gate [of cfg64 "[L_version 25122, L_sizes 8 8 8, L_bbpsize 5]" 0 1]
    by (simp add: cfg64_def)
  show "BBPheader cfg64 [L_version 25121, L_sizes 8 8 8, L_bbpsize 5] 0 1 =
       Inl (Incompatible_version 25124 25121 False)"
    using BBPheader_gate [of cfg64 "[L_version 25121, L_sizes 8 8 8, L_bbpsize 5]" 0 1]
    by (simp add: cfg64_def)
  show "BBPheader cfg64 [L_version 25124, L_sizes 4 8 8, L_bbpsize 5, L_info 7 9] 0 1 =
       Inl (Incompatible_server 8 4 8 8)"
    using BBPheader_gate [of cfg64 "[L_version 25124, L_sizes 4 8 8, L_bbpsize 5, L_info 7 9]" 0 1]
    by (simp add: cfg64_def)
  show "BBPheader cfg64 [L_version 25124, L_sizes 8 8 32, L_bbpsize 5, L_info 7 9] 0 1 =
       Inl (Incompatible_intsize 16 32)"
    using BBPheader_gate [of cfg64 "[L_version 25124, L_sizes 8 8 32, L_bbpsize 5, L_info 7 9]" 0 1]
    by (simp add: cfg64_def)
qed


unbundle bit_operations_syntax

subsection \<open>Status bits, heaps, descriptors and slots\<close>

text \<open>
  Modelled from the spec: the status word of a slot.  The values of the flags are given
  in \<^verbatim>\<open>gdk.h\<close>, which is not among the sources; the spec names the flags and says
  that \<open>UNSTABLE = LOADING | UNLOADING | DELETING\<close> and
  \<open>WAITING = UNSTABLE | SAVING | SYNCING\<close>.  Every flag is one bit of its own, so the
  word is the set of the flags that are on: \<^verbatim>\<open>BBP_status_on\<close> is union,
  \<^verbatim>\<open>BBP_status_off\<close> is difference, and \<^verbatim>\<open>BBP_status(i) & m\<close> is true when the
  intersection with \<open>m\<close> is not empty.  \<open>BBPPERSISTENT\<close> covers \<open>BBPEXISTING\<close> (the
  status \<^verbatim>\<open>BBPreadEntries\<close> gives to every BAT of the catalog, "any BAT we encounter
  here is persistent") and \<open>BBPNEW\<close>.
\<close>

datatype status_flag =
    BBPLOADED | BBPSWAPPED | BBPTMP | BBPDELETED | BBPEXISTING | BBPNEW
  | BBPUNLOADING | BBPLOADING | BBPSAVING | BBPRENAMED | BBPDELETING | BBPHOT | BBPSYNCING

definition BBPPERSISTENT :: "status_flag set" where
  "BBPPERSISTENT = {BBPEXISTING, BBPNEW}"

definition BBPUNSTABLE :: "status_flag set" where
  "BBPUNSTABLE = {BBPLOADING, BBPUNLOADING, BBPDELETING}"

definition BBPWAITING :: "status_flag set" where
  "BBPWAITING = BBPUNSTABLE \<union> {BBPSAVING, BBPSYNCING}"

text \<open>
  A bat id is a C \<^verbatim>\<open>int\<close>; \<open>bat_nil\<close> is \<^verbatim>\<open>int_nil\<close>, the smallest \<^verbatim>\<open>int\<close>.
  Reference counts are C \<^verbatim>\<open>int\<close>s as well; the model does not let them overflow.
\<close>

definition bat_nil :: int where
  "bat_nil = - (2 ^ 31)"

definition is_bat_nil :: "int \<Rightarrow> bool" where
  "is_bat_nil i = (i = bat_nil)"

datatype storage_mode = STORE_MEM | STORE_MMAP | STORE_PRIV | STORE_CMEM | STORE_NOWN

text \<open>
  The fields of \<^verbatim>\<open>Heap\<close> and \<^verbatim>\<open>BAT\<close> that \<^verbatim>\<open>gdk_bbp.c\<close> reads or writes in the
  functions below.  A descriptor points to its heaps, and a view points to the heap of
  its parent, so heaps and descriptors live in stores and are named by addresses.
\<close>

record Heap =
  parentid :: int
  dirty :: bool
  farmid :: int
  hsize :: nat
  storage :: storage_mode

record BAT =
  batCacheid :: int
  batSharecnt :: int
  theap :: "nat option"
  tvheap :: "nat option"
  batCount :: nat
  batInserted :: nat
  batCopiedtodisk :: bool
  batDirtydesc :: bool
  batTransient :: bool
  creator_tid :: int

text \<open>
  \<^verbatim>\<open>BBPrec\<close>.  The fields \<^verbatim>\<open>next\<close> and \<^verbatim>\<open>logical\<close> are called \<open>next'\<close> and \<open>logical'\<close>; \<open>pid\<close> is an \<^verbatim>\<open>MT_Id\<close>, with
  \<open>-1\<close> for \<^verbatim>\<open>~(MT_Id)0\<close>.  A name is \<open>None\<close> when the pointer is NULL.
\<close>

record BBPrec =
  status :: "status_flag set"
  refs :: int
  lrefs :: int
  next' :: int
  logical' :: "string option"
  bak :: string
  physical :: string
  cache :: "nat option"
  desc :: "nat option"
  pid :: int

text \<open>
  The file system, as far as the pool looks at it: the directories, each with the names
  \<^verbatim>\<open>readdir\<close> finds in it, in that order, and the paths on which the system refuses
  every change (\<^verbatim>\<open>EACCES\<close>).  A file exists when its name is in the list of its
  directory.
\<close>

record filesys =
  dirs :: "string \<Rightarrow> string list option"
  denied :: "string set"

text \<open>
  The state of the pool: the globals of \<^verbatim>\<open>gdk_bbp.c\<close>, the two stores, the farm
  directories, the file system, and the messages handed to \<^verbatim>\<open>GDKerror\<close>,
  \<^verbatim>\<open>GDKsyserror\<close> and \<^verbatim>\<open>TRC_CRITICAL\<close>, newest first.  \<open>BBP\<close> is the two-level
  array read as one array; \<open>BBP_THREADMASK\<close> is 0, so there is one free list, \<open>BBP_free\<close>.
  Only the slots below \<open>BBPlimit\<close> are allocated.  \<open>BBP_hash\<close> is \<open>None\<close> when the
  pointer is NULL.
\<close>

record bbp_state =
  BBP :: "int \<Rightarrow> BBPrec"
  BBPlimit :: int
  BBPsize :: int
  BBP_free :: int
  BBP_hash :: "(nat \<Rightarrow> int) option"
  BBP_mask :: int
  bats :: "nat \<Rightarrow> BAT"
  heaps :: "nat \<Rightarrow> Heap"
  locked_by :: int
  BBPlogno :: int
  BBPtransid :: int
  backup_files :: int
  backup_dir :: int
  backup_subdir :: int
  BBPunloadCnt :: int
  farm_dirname :: "int \<Rightarrow> string option"
  fs :: filesys
  errors :: "string list"

subsection \<open>The functions of other files\<close>

text \<open>
  \<^verbatim>\<open>gdk_bbp.c\<close> calls functions of the heap, BAT and storage layers, which are not
  among the sources.  They are parameters of the model: a function that changes memory
  or files is any function on the state, one that can fail also returns its result.
  \<open>BBPbackup\<close>, \<open>BBPdir_first\<close>, \<open>BBPdir_step\<close> and \<open>BBPdir_last\<close> are functions of
  \<^verbatim>\<open>gdk_bbp.c\<close> itself that only move heap files and write the catalog text; nothing
  below depends on what they do there, and they are parameters too.
  \<open>oom\<close> says for which strings \<^verbatim>\<open>GDKmalloc\<close> or \<^verbatim>\<open>GDKstrdup\<close> returns NULL,
  \<open>zalloc_fails\<close> for which number of array elements \<^verbatim>\<open>GDKzalloc\<close> does.
\<close>

record extern =
  strHash :: "string \<Rightarrow> nat"
  MT_getpid :: int
  GDKvm_cursize :: nat
  GDK_vm_maxsize :: nat
  GDKdebug_tailchk :: bool
  oom :: "string \<Rightarrow> bool"
  zalloc_fails :: "nat \<Rightarrow> bool"
  BATdescriptor :: "int \<Rightarrow> bbp_state \<Rightarrow> (nat option \<times> bbp_state) option"
  BATload_intern :: "int \<Rightarrow> bool \<Rightarrow> bbp_state \<Rightarrow> nat option \<times> bbp_state"
  BATsettrivprop :: "nat \<Rightarrow> bbp_state \<Rightarrow> bbp_state"
  BATsetaccess_READ :: "nat \<Rightarrow> bbp_state \<Rightarrow> nat option \<times> bbp_state"
  BATdelete :: "nat \<Rightarrow> bbp_state \<Rightarrow> bbp_state"
  BATfree :: "nat \<Rightarrow> bbp_state \<Rightarrow> bbp_state"
  BATdestroy :: "nat \<Rightarrow> bbp_state \<Rightarrow> bbp_state"
  BATsave :: "nat \<Rightarrow> bbp_state \<Rightarrow> gdk_return \<times> bbp_state"
  BATsave_iter :: "nat \<Rightarrow> nat \<Rightarrow> bbp_state \<Rightarrow> gdk_return \<times> bbp_state"
  BATcheckmodes :: "nat \<Rightarrow> bbp_state \<Rightarrow> gdk_return \<times> bbp_state"
  BAThashsave :: "nat \<Rightarrow> bool \<Rightarrow> bbp_state \<Rightarrow> bbp_state"
  atomUnfix_all :: "nat \<Rightarrow> bbp_state \<Rightarrow> bbp_state"
  VIEWunlink :: "nat \<Rightarrow> bbp_state \<Rightarrow> bbp_state"
  VIEWdestroy :: "nat \<Rightarrow> bbp_state \<Rightarrow> bbp_state"
  HEAPincref :: "nat \<Rightarrow> bbp_state \<Rightarrow> bbp_state"
  HEAPdecref :: "nat \<Rightarrow> bool \<Rightarrow> bbp_state \<Rightarrow> bbp_state"
  gettailname :: "BAT \<Rightarrow> string"
  BBPbackup :: "nat \<Rightarrow> bool \<Rightarrow> bbp_state \<Rightarrow> gdk_return \<times> bbp_state"
  BBPdir_first :: "bool \<Rightarrow> int \<Rightarrow> int \<Rightarrow> bbp_state \<Rightarrow> gdk_return \<times> bbp_state"
  BBPdir_step :: "int \<Rightarrow> nat option \<Rightarrow> int \<Rightarrow> bbp_state \<Rightarrow> int \<times> bbp_state"
  BBPdir_last :: "int \<Rightarrow> bbp_state \<Rightarrow> gdk_return \<times> bbp_state"

subsection \<open>Access to the slots\<close>

text \<open>
  A slot as \<^verbatim>\<open>BBPextend\<close> leaves it: zeroed by \<^verbatim>\<open>GDKzalloc\<close>, with \<open>pid\<close> set to
  \<^verbatim>\<open>~(MT_Id)0\<close>.
\<close>

definition slot_zero :: BBPrec where
  "slot_zero = \<lparr>status = {}, refs = 0, lrefs = 0, next' = 0, logical' = None, bak = [],
     physical = [], cache = None, desc = None, pid = -1\<rparr>"


definition upd_slot :: "int \<Rightarrow> (BBPrec \<Rightarrow> BBPrec) \<Rightarrow> bbp_state \<Rightarrow> bbp_state" where
  "upd_slot i f s = s\<lparr>BBP := (BBP s)(i := f (BBP s i))\<rparr>"

definition BBP_status :: "bbp_state \<Rightarrow> int \<Rightarrow> status_flag set" where
  "BBP_status s i = status (BBP s i)"

definition BBP_refs :: "bbp_state \<Rightarrow> int \<Rightarrow> int" where
  "BBP_refs s i = refs (BBP s i)"

definition BBP_lrefs :: "bbp_state \<Rightarrow> int \<Rightarrow> int" where
  "BBP_lrefs s i = lrefs (BBP s i)"

definition BBP_next :: "bbp_state \<Rightarrow> int \<Rightarrow> int" where
  "BBP_next s i = next' (BBP s i)"

definition BBP_logical :: "bbp_state \<Rightarrow> int \<Rightarrow> string option" where
  "BBP_logical s i = logical' (BBP s i)"

definition BBP_bak :: "bbp_state \<Rightarrow> int \<Rightarrow> string" where
  "BBP_bak s i = bak (BBP s i)"

definition BBP_physical :: "bbp_state \<Rightarrow> int \<Rightarrow> string" where
  "BBP_physical s i = physical (BBP s i)"

definition BBP_cache :: "bbp_state \<Rightarrow> int \<Rightarrow> nat option" where
  "BBP_cache s i = cache (BBP s i)"

definition BBP_desc :: "bbp_state \<Rightarrow> int \<Rightarrow> nat option" where
  "BBP_desc s i = desc (BBP s i)"

definition BBP_pid :: "bbp_state \<Rightarrow> int \<Rightarrow> int" where
  "BBP_pid s i = pid (BBP s i)"

definition BBP_status_set :: "int \<Rightarrow> status_flag set \<Rightarrow> bbp_state \<Rightarrow> bbp_state" where
  "BBP_status_set i m s = upd_slot i (\<lambda>r. r\<lparr>status := m\<rparr>) s"

definition BBP_status_on :: "int \<Rightarrow> status_flag set \<Rightarrow> bbp_state \<Rightarrow> bbp_state" where
  "BBP_status_on i m s = upd_slot i (\<lambda>r. r\<lparr>status := status r \<union> m\<rparr>) s"

definition BBP_status_off :: "int \<Rightarrow> status_flag set \<Rightarrow> bbp_state \<Rightarrow> bbp_state" where
  "BBP_status_off i m s = upd_slot i (\<lambda>r. r\<lparr>status := status r - m\<rparr>) s"

definition GDKerror :: "string \<Rightarrow> bbp_state \<Rightarrow> bbp_state" where
  "GDKerror msg s = s\<lparr>errors := msg # errors s\<rparr>"

text \<open>
  Modelled from the spec: \<^verbatim>\<open>BBPcheck\<close> and \<^verbatim>\<open>BBPvalid\<close> are defined in
  \<^verbatim>\<open>gdk.h\<close>, which is not among the sources.  By the spec id 0 is the nil slot and a
  live slot has a logical name; the source writes the same test out in \<^verbatim>\<open>BBP_find\<close>
  and \<^verbatim>\<open>getdesc\<close> (\<^verbatim>\<open>bid < BBPsize && BBP_logical(bid)\<close>).  \<^verbatim>\<open>BBPcheck(x)\<close> is
  \<open>x\<close> when \<open>x\<close> is not nil, is in the range of the slots in use and has a logical
  name, and 0 otherwise; \<^verbatim>\<open>BBPvalid(i)\<close> holds when slot \<open>i\<close> has a logical name that
  does not start with a dot.
\<close>

definition BBPcheck :: "bbp_state \<Rightarrow> int \<Rightarrow> int" where
  "BBPcheck s x =
    (if \<not> is_bat_nil x \<and> \<not> (x < 0 \<or> x \<ge> BBPsize s \<or> BBP_logical s x = None)
     then x else 0)"

definition BBPvalid :: "bbp_state \<Rightarrow> int \<Rightarrow> bool" where
  "BBPvalid s i =
    (case BBP_logical s i of None \<Rightarrow> False | Some n \<Rightarrow> \<not> (n \<noteq> [] \<and> hd n = CHR ''.''))"

text \<open>
  Modelled from the spec: the macros \<^verbatim>\<open>VIEWtparent\<close>, \<^verbatim>\<open>VIEWvtparent\<close>,
  \<^verbatim>\<open>isVIEW\<close> and \<^verbatim>\<open>BATdirty\<close> of \<^verbatim>\<open>gdk.h\<close>.  By the spec a descriptor carries a
  parent id for each heap, which is the BAT's own id when the heap has no parent, and
  the core observes a dirty flag.  A heap pointer that is NULL counts as having no
  parent and not being dirty.
\<close>

definition VIEWtparent :: "bbp_state \<Rightarrow> nat \<Rightarrow> int" where
  "VIEWtparent s b =
    (case theap (bats s b) of
       None \<Rightarrow> 0
     | Some h \<Rightarrow> if parentid (heaps s h) = batCacheid (bats s b) then 0
                 else parentid (heaps s h))"

definition VIEWvtparent :: "bbp_state \<Rightarrow> nat \<Rightarrow> int" where
  "VIEWvtparent s b =
    (case tvheap (bats s b) of
       None \<Rightarrow> 0
     | Some h \<Rightarrow> if parentid (heaps s h) = batCacheid (bats s b) then 0
                 else parentid (heaps s h))"

definition isVIEW :: "bbp_state \<Rightarrow> nat \<Rightarrow> bool" where
  "isVIEW s b =
    ((case theap (bats s b) of None \<Rightarrow> False
      | Some h \<Rightarrow> parentid (heaps s h) \<noteq> batCacheid (bats s b)) \<or>
     (case tvheap (bats s b) of None \<Rightarrow> False
      | Some h \<Rightarrow> parentid (heaps s h) \<noteq> batCacheid (bats s b)))"

definition BATdirtydata :: "bbp_state \<Rightarrow> nat \<Rightarrow> bool" where
  "BATdirtydata s b =
    ((case theap (bats s b) of None \<Rightarrow> False | Some h \<Rightarrow> dirty (heaps s h)) \<or>
     (case tvheap (bats s b) of None \<Rightarrow> False | Some h \<Rightarrow> dirty (heaps s h)))"

definition BATdirty :: "bbp_state \<Rightarrow> nat \<Rightarrow> bool" where
  "BATdirty s b =
    (\<not> batCopiedtodisk (bats s b) \<or> batDirtydesc (bats s b) \<or> BATdirtydata s b)"

definition DELTAdirty :: "bbp_state \<Rightarrow> nat \<Rightarrow> bool" where
  "DELTAdirty s b = (batInserted (bats s b) < batCount (bats s b))"

definition GDKinmemory :: "bbp_state \<Rightarrow> int \<Rightarrow> bool" where
  "GDKinmemory s farm = (farm_dirname s (if farm = -1 then 0 else farm) = None)"

text \<open>\<^verbatim>\<open>locked_by == 0 || locked_by != MT_getpid()\<close>\<close>

definition need_lock :: "extern \<Rightarrow> bbp_state \<Rightarrow> bool" where
  "need_lock env s = (locked_by s = 0 \<or> locked_by s \<noteq> MT_getpid env)"

text \<open>
  \<^verbatim>\<open>BBPspin\<close> sleeps until the bits of \<open>event\<close> are off.  Nothing in one thread turns
  them off, so the call returns only when they are off already (or the id fails
  \<^verbatim>\<open>BBPcheck\<close>).
\<close>

definition BBPspin :: "int \<Rightarrow> status_flag set \<Rightarrow> bbp_state \<Rightarrow> bbp_state option" where
  "BBPspin i event s =
    (if BBPcheck s i \<noteq> 0 \<and> BBP_status s i \<inter> event \<noteq> {} then None else Some s)"


subsection \<open>The name hash\<close>

text \<open>\<^verbatim>\<open>BBPtmpcheck(s)\<close> is \<^verbatim>\<open>strncmp(s, "tmp_", 4) == 0\<close>.\<close>

definition BBPtmpcheck :: "string \<Rightarrow> bool" where
  "BBPtmpcheck n = (take 4 n = ''tmp_'')"

definition hash_idx :: "extern \<Rightarrow> bbp_state \<Rightarrow> string \<Rightarrow> nat" where
  "hash_idx env s n = strHash env n AND nat (BBP_mask s)"

text \<open>
  \<^verbatim>\<open>BBP_insert\<close> and \<^verbatim>\<open>BBP_delete\<close>.  The result is \<open>None\<close> where the C code reads
  through a NULL pointer (a slot without a name, no bucket array).
\<close>

definition BBP_insert :: "extern \<Rightarrow> int \<Rightarrow> bbp_state \<Rightarrow> bbp_state option" where
  "BBP_insert env i s =
    (case (BBP_logical s i, BBP_hash s) of
       (Some n, Some h) \<Rightarrow>
         let idx = hash_idx env s n;
             s1 = upd_slot i (\<lambda>r. r\<lparr>next' := h idx\<rparr>) s
         in Some (s1\<lparr>BBP_hash := Some (h(idx := i))\<rparr>)
     | _ \<Rightarrow> None)"

text \<open>
  The pointer \<^verbatim>\<open>h\<close> of \<^verbatim>\<open>BBP_delete\<close> points to a bucket or to the \<^verbatim>\<open>next\<close> field
  of a slot.
\<close>

datatype link = Bucket nat | Next_of int

definition link_get :: "bbp_state \<Rightarrow> link \<Rightarrow> int" where
  "link_get s l =
    (case l of
       Bucket k \<Rightarrow> (case BBP_hash s of None \<Rightarrow> 0 | Some h \<Rightarrow> h k)
     | Next_of j \<Rightarrow> BBP_next s j)"

definition link_set :: "link \<Rightarrow> int \<Rightarrow> bbp_state \<Rightarrow> bbp_state" where
  "link_set l v s =
    (case l of
       Bucket k \<Rightarrow> s\<lparr>BBP_hash := map_option (\<lambda>h. h(k := v)) (BBP_hash s)\<rparr>
     | Next_of j \<Rightarrow> upd_slot j (\<lambda>r. r\<lparr>next' := v\<rparr>) s)"

text \<open>
  The loop of \<^verbatim>\<open>BBP_delete\<close> follows a chain of slots.  A chain without a cycle has
  fewer than \<open>BBPlimit\<close> slots, so the C loop ends within \<open>BBPlimit + 1\<close> steps or, on a
  cycle that does not hold the name, never: the first argument counts the steps left,
  and \<open>None\<close> is the loop that does not end.
\<close>

fun BBP_delete_loop :: "nat \<Rightarrow> string \<Rightarrow> link \<Rightarrow> bbp_state \<Rightarrow> bbp_state option" where
  "BBP_delete_loop 0 n h s = None"
| "BBP_delete_loop (Suc k) n h s =
    (let i = link_get s h in
     if i = 0 then Some s
     else case BBP_logical s i of
            None \<Rightarrow> None
          | Some l \<Rightarrow> if l = n then Some (link_set h (BBP_next s i) s)
                      else BBP_delete_loop k n (Next_of i) s)"

definition BBP_delete :: "extern \<Rightarrow> int \<Rightarrow> bbp_state \<Rightarrow> bbp_state option" where
  "BBP_delete env i s =
    (case (BBP_logical s i, BBP_hash s) of
       (Some n, Some h) \<Rightarrow>
         BBP_delete_loop (nat (BBPlimit s) + 1) n (Bucket (hash_idx env s n)) s
     | _ \<Rightarrow> None)"

subsection \<open>Leaving the cache and clearing a slot\<close>

definition BBPuncacheit :: "extern \<Rightarrow> int \<Rightarrow> bool \<Rightarrow> bbp_state \<Rightarrow> bbp_state" where
  "BBPuncacheit env i0 unloaddesc s =
    (let i = (if i0 < 0 then - i0 else i0) in
     if BBPcheck s i \<noteq> 0 then
       (case BBP_desc s i of
          None \<Rightarrow> s
        | Some b \<Rightarrow>
            let s1 = (if BBP_cache s i \<noteq> None
                      then upd_slot i (\<lambda>r. r\<lparr>cache := None\<rparr>) (BBP_status_off i {BBPLOADED} s)
                      else s)
            in if unloaddesc
               then BATdestroy env b (upd_slot i (\<lambda>r. r\<lparr>desc := None\<rparr>) s1)
               else s1)
     else s)"

definition bbpclear :: "extern \<Rightarrow> int \<Rightarrow> bool \<Rightarrow> bbp_state \<Rightarrow> bbp_state option" where
  "bbpclear env i lock s =
    (let s1 = BBPuncacheit env i True s;
         s2 = BBP_status_set i {BBPUNLOADING} s1;
         s3 = upd_slot i (\<lambda>r. r\<lparr>refs := 0, lrefs := 0\<rparr>) s2
     in case BBP_logical s3 i of
          None \<Rightarrow> None
        | Some n \<Rightarrow>
            do {
              s4 \<leftarrow> (if \<not> BBPtmpcheck n then BBP_delete env i s3 else Some s3);
              let s5 = BBP_status_set i {} s4;
              let s6 = upd_slot i (\<lambda>r. r\<lparr>logical' := None, next' := BBP_free s5\<rparr>) s5;
              let s7 = s6\<lparr>BBP_free := i\<rparr>;
              Some (upd_slot i (\<lambda>r. r\<lparr>pid := -1\<rparr>) s7)
            })"

definition BBPclear :: "extern \<Rightarrow> int \<Rightarrow> bool \<Rightarrow> bbp_state \<Rightarrow> bbp_state option" where
  "BBPclear env i lock s =
    (if BBPcheck s i \<noteq> 0 then bbpclear env i (lock \<and> need_lock env s) s else Some s)"

subsection \<open>Saving a BAT\<close>

text \<open>
  \<^verbatim>\<open>BBPsave\<close>.  The hash heaps of a BAT are not part of the model: \<open>BAThashsave\<close>
  stands for the test of \<^verbatim>\<open>b->thash\<close> and the call it guards.
\<close>

definition BBPsave :: "extern \<Rightarrow> nat \<Rightarrow> bbp_state \<Rightarrow> (gdk_return \<times> bbp_state) option" where
  "BBPsave env b s =
    (let bid = batCacheid (bats s b) in
     if BBP_lrefs s bid = 0 \<or> isVIEW s b \<or> \<not> BATdirtydata s b
     then Some (GDK_SUCCEED, BAThashsave env b (BBP_status s bid \<inter> BBPPERSISTENT \<noteq> {}) s)
     else if BBPSAVING \<in> BBP_status s bid
     then do { s1 \<leftarrow> BBPspin bid {BBPSAVING} s; Some (GDK_SUCCEED, s1) }
     else
       let flags = {BBPSAVING} \<union> (if DELTAdirty s b then {BBPSWAPPED} else {})
                     \<union> (if batTransient (bats s b) then {BBPTMP} else {});
           s1 = BBP_status_on bid flags s;
           (ret1, s2) = (if BBPEXISTING \<in> BBP_status s1 bid
                         then BBPbackup env b False s1 else (GDK_SUCCEED, s1));
           (ret2, s3) = (if ret1 = GDK_SUCCEED then BATsave env b s2 else (ret1, s2))
       in Some (ret2, BBP_status_off bid {BBPSAVING} s3))"

subsection \<open>Releasing references\<close>

text \<open>
  The part of \<^verbatim>\<open>decref\<close> that runs under the swap lock, in four steps: the count is
  decremented, the dirty bits are turned back on after a commit that ran in parallel to
  an update, the flags that forbid unloading are chosen, and the decision to unload is
  taken.
\<close>

definition decref_count ::
  "int \<Rightarrow> bool \<Rightarrow> bbp_state \<Rightarrow> int \<times> int \<times> int \<times> bbp_state" where
  "decref_count i logical s =
    (let b = BBP_cache s i in
     if logical then
       (if BBP_lrefs s i = 0
        then (0, 0, 0, GDKerror ''does not have logical references'' s)
        else (BBP_lrefs s i - 1, 0, 0, upd_slot i (\<lambda>r. r\<lparr>lrefs := lrefs r - 1\<rparr>) s))
     else
       (if BBP_refs s i = 0
        then (0, 0, 0, GDKerror ''does not have pointer fixes'' s)
        else
          let r = BBP_refs s i - 1;
              s1 = upd_slot i (\<lambda>r. r\<lparr>refs := refs r - 1\<rparr>) s
          in case b of
               Some bp \<Rightarrow>
                 if r = 0 then
                   let tp = VIEWtparent s1 bp; tvp = VIEWvtparent s1 bp
                   in (r, tp, tvp,
                       if tp \<noteq> 0 \<or> tvp \<noteq> 0 then BBP_status_on i {BBPHOT} s1 else s1)
                 else (r, 0, 0, s1)
             | None \<Rightarrow> (r, 0, 0, s1)))"

definition set_heap_dirty :: "nat \<Rightarrow> bbp_state \<Rightarrow> bbp_state" where
  "set_heap_dirty h s = s\<lparr>heaps := (heaps s)(h := (heaps s h)\<lparr>dirty := True\<rparr>)\<rparr>"

definition decref_redirty :: "int \<Rightarrow> bbp_state \<Rightarrow> int \<times> bbp_state" where
  "decref_redirty i s =
    (case BBP_cache s i of
       None \<Rightarrow> (0, s)
     | Some b \<Rightarrow>
         let s1 =
           (if batCount (bats s b) > batInserted (bats s b) \<and> \<not> isVIEW s b then
              let sa = (case theap (bats s b) of
                          Some h \<Rightarrow> if parentid (heaps s h) = i then set_heap_dirty h s else s
                        | None \<Rightarrow> s)
              in (case tvheap (bats sa b) of
                    Some h \<Rightarrow> if parentid (heaps sa h) = i then set_heap_dirty h sa else sa
                  | None \<Rightarrow> sa)
            else s)
         in ((case theap (bats s1 b) of Some h \<Rightarrow> farmid (heaps s1 h) | None \<Rightarrow> 0), s1))"

definition decref_chkflag :: "extern \<Rightarrow> bbp_state \<Rightarrow> int \<Rightarrow> status_flag set" where
  "decref_chkflag env s i =
    (let hs = (case BBP_cache s i of
                 None \<Rightarrow> 0
               | Some b \<Rightarrow>
                   (case theap (bats s b) of Some h \<Rightarrow> hsize (heaps s h) | None \<Rightarrow> 0) +
                   (case tvheap (bats s b) of Some h \<Rightarrow> hsize (heaps s h) | None \<Rightarrow> 0))
     in if GDKvm_cursize env < GDK_vm_maxsize env \<and>
           hs < (GDK_vm_maxsize env - GDKvm_cursize env) div 32
        then {BBPSYNCING, BBPHOT} else {BBPSYNCING})"

definition decref_swap :: "extern \<Rightarrow> bbp_state \<Rightarrow> int \<Rightarrow> int \<Rightarrow> bool" where
  "decref_swap env s i farm =
    (BBP_refs s i = 0 \<and>
     (BBP_lrefs s i = 0 \<or>
      (case BBP_cache s i of
         Some b \<Rightarrow>
           \<not> BATdirty s b \<and>
           BBP_status s i \<inter> decref_chkflag env s i = {} \<and>
           BBP_status s i \<inter> BBPPERSISTENT \<noteq> {} \<and>
           \<not> GDKinmemory s farm \<and>
           batSharecnt (bats s b) = 0
       | None \<Rightarrow> BBPTMP \<in> BBP_status s i)))"

record decref_vars =
  dv_refs :: int
  dv_tp :: int
  dv_tvp :: int
  dv_swap :: bool
  dv_lrefs :: int

definition decref_locked ::
  "extern \<Rightarrow> int \<Rightarrow> bool \<Rightarrow> bbp_state \<Rightarrow> decref_vars \<times> bbp_state" where
  "decref_locked env i logical s =
    (let (r, tp, tvp, s1) = decref_count i logical s;
         (farm, s2) = decref_redirty i s1;
         swap = decref_swap env s2 i farm;
         s3 = (if swap then BBP_status_on i {BBPUNLOADING} s2 else s2)
     in (\<lparr>dv_refs = r, dv_tp = tp, dv_tvp = tvp, dv_swap = swap, dv_lrefs = BBP_lrefs s3 i\<rparr>,
         s3))"

text \<open>
  \<^verbatim>\<open>decref\<close>, \<^verbatim>\<open>BBPdestroy\<close>, \<^verbatim>\<open>BBPfree\<close> and \<^verbatim>\<open>GDKunshare\<close> call each other
  along the parents of a view.  Each body is written first, with the functions it calls
  as its first arguments (\<open>destroy\<close>, \<open>free\<close>, \<open>again\<close> and \<open>unshare\<close> are
  \<^verbatim>\<open>BBPdestroy\<close>, \<^verbatim>\<open>BBPfree\<close>, \<^verbatim>\<open>decref\<close> and \<^verbatim>\<open>GDKunshare\<close>); the four functions
  are then defined together.  Their first argument bounds the depth of the calls; the
  result is \<open>None\<close> when the bound is used up, when the call waits for a status bit, and
  when the C code reads through a NULL pointer.  The \<^verbatim>\<open>func\<close> argument of \<^verbatim>\<open>decref\<close>
  only names the caller in messages and is left out.
\<close>

type_synonym decref_fn =
  "extern \<Rightarrow> int \<Rightarrow> bool \<Rightarrow> bool \<Rightarrow> bool \<Rightarrow> bbp_state \<Rightarrow> (int \<times> bbp_state) option"

type_synonym destroy_fn = "extern \<Rightarrow> nat \<Rightarrow> bbp_state \<Rightarrow> bbp_state option"

type_synonym free_fn = "extern \<Rightarrow> nat \<Rightarrow> bbp_state \<Rightarrow> (gdk_return \<times> bbp_state) option"

type_synonym unshare_fn = "extern \<Rightarrow> int \<Rightarrow> bbp_state \<Rightarrow> bbp_state option"

definition decref_body :: "destroy_fn \<Rightarrow> free_fn \<Rightarrow> decref_fn \<Rightarrow> decref_fn" where
  "decref_body destroy free again env i logical releaseShare lock s =
    (if is_bat_nil i then Some (-1, s)
     else if BBPcheck s i = 0 then Some (-1, s)
     else if releaseShare then
       (case BBP_desc s i of
          None \<Rightarrow> None
        | Some d \<Rightarrow>
            if batSharecnt (bats s d) = 0
            then Some (0, GDKerror ''does not have any shares'' s)
            else Some (0, s\<lparr>bats := (bats s)
                            (d := (bats s d)\<lparr>batSharecnt := batSharecnt (bats s d) - 1\<rparr>)\<rparr>))
     else if BBPUNLOADING \<in> BBP_status s i then None
     else
       let (v, s1) = decref_locked env i logical s in
       do {
         r \<leftarrow>
           (if dv_swap v then
              (case BBP_cache s i of
                 Some b \<Rightarrow>
                   if dv_lrefs v = 0 \<and> BBPDELETED \<notin> BBP_status s1 i
                   then map_option (\<lambda>s2. (True, s2)) (destroy env b s1)
                   else map_option (\<lambda>(ret, s2). (ret = GDK_SUCCEED, s2)) (free env b s1)
               | None \<Rightarrow>
                   if dv_lrefs v = 0 \<and> BBPDELETED \<notin> BBP_status s1 i
                   then map_option (\<lambda>s2. (True, s2))
                          (BBPclear env i True
                             (case BBP_desc s1 i of Some d \<Rightarrow> BATdelete env d s1 | None \<Rightarrow> s1))
                   else Some (True, BBP_status_off i {BBPUNLOADING} s1))
            else Some (True, s1));
         if \<not> fst r then Some (-1, snd r)
         else do {
           s3 \<leftarrow> (if dv_tp v \<noteq> 0
                  then map_option snd (again env (dv_tp v) False False lock (snd r))
                  else Some (snd r));
           s4 \<leftarrow> (if dv_tvp v \<noteq> 0
                  then map_option snd (again env (dv_tvp v) False False lock s3)
                  else Some s3);
           Some (dv_refs v, s4)
         }
       })"

definition BBPdestroy_body :: "unshare_fn \<Rightarrow> destroy_fn" where
  "BBPdestroy_body unshare env b s =
    (let tp = VIEWtparent s b;
         vtp = VIEWvtparent s b;
         s1 = (if tp = 0 then atomUnfix_all env b s else s);
         s2 = (if tp \<noteq> 0 \<or> vtp \<noteq> 0 then VIEWunlink env b s1 else s1);
         s3 = BATdelete env b s2
     in do {
       s4 \<leftarrow> BBPclear env (batCacheid (bats s3 b)) True s3;
       s5 \<leftarrow> (if tp \<noteq> 0 then unshare env tp s4 else Some s4);
       (if vtp \<noteq> 0 then unshare env vtp s5 else Some s5)
     })"

definition BBPfree_body :: "unshare_fn \<Rightarrow> free_fn" where
  "BBPfree_body unshare env b s =
    (let bid = batCacheid (bats s b);
         tp = VIEWtparent s b;
         vtp = VIEWvtparent s b;
         s0 = s\<lparr>BBPunloadCnt := BBPunloadCnt s + 1\<rparr>
     in do {
       (ret, s1) \<leftarrow> BBPsave env b s0;
       let s2 = (if ret = GDK_SUCCEED then
                   BBPuncacheit env bid False
                     (if isVIEW s1 b then VIEWdestroy env b s1
                      else if BBP_cache s1 bid \<noteq> None then BATfree env b s1 else s1)
                 else s1);
       let s3 = BBP_status_off bid {BBPUNLOADING} s2;
       let s4 = s3\<lparr>BBPunloadCnt := BBPunloadCnt s3 - 1\<rparr>;
       s5 \<leftarrow> (if ret = GDK_SUCCEED \<and> tp \<noteq> 0 then unshare env tp s4 else Some s4);
       s6 \<leftarrow> (if ret = GDK_SUCCEED \<and> vtp \<noteq> 0 then unshare env vtp s5 else Some s5);
       Some (ret, s6)
     })"

definition GDKunshare_body :: "decref_fn \<Rightarrow> unshare_fn" where
  "GDKunshare_body again env parent s =
    do {
      (_, s1) \<leftarrow> again env parent False True True s;
      (_, s2) \<leftarrow> again env parent True False True s1;
      Some s2
    }"

fun decref :: "nat \<Rightarrow> decref_fn"
  and BBPdestroy :: "nat \<Rightarrow> destroy_fn"
  and BBPfree :: "nat \<Rightarrow> free_fn"
  and GDKunshare :: "nat \<Rightarrow> unshare_fn"
where
  "decref 0 = (\<lambda>env i logical releaseShare lock s. None)"
| "decref (Suc n) = decref_body (BBPdestroy n) (BBPfree n) (decref n)"
| "BBPdestroy 0 = (\<lambda>env b s. None)"
| "BBPdestroy (Suc n) = BBPdestroy_body (GDKunshare n)"
| "BBPfree 0 = (\<lambda>env b s. None)"
| "BBPfree (Suc n) = BBPfree_body (GDKunshare n)"
| "GDKunshare 0 = (\<lambda>env parent s. None)"
| "GDKunshare (Suc n) = GDKunshare_body (decref n)"

definition BBPunfix :: "nat \<Rightarrow> extern \<Rightarrow> int \<Rightarrow> bbp_state \<Rightarrow> (int \<times> bbp_state) option" where
  "BBPunfix n env i s = decref n env i False False True s"

definition BBPrelease :: "nat \<Rightarrow> extern \<Rightarrow> int \<Rightarrow> bbp_state \<Rightarrow> (int \<times> bbp_state) option" where
  "BBPrelease n env i s = decref n env i True False True s"


subsection \<open>Taking references\<close>

text \<open>
  The first part of \<^verbatim>\<open>incref\<close>: for a physical reference the parents of a view are
  fixed and loaded before the lock is taken.  \<open>Parents_failed\<close> is the \<^verbatim>\<open>return 0\<close>
  after a parent could not be loaded.
\<close>

datatype parents =
    Parents_failed bbp_state
  | Parents int int "nat option" "nat option" bbp_state

definition unfix_desc :: "nat \<Rightarrow> extern \<Rightarrow> nat option \<Rightarrow> bbp_state \<Rightarrow> bbp_state option" where
  "unfix_desc n env pb s =
    (case pb of
       Some p \<Rightarrow> map_option snd (BBPunfix n env (batCacheid (bats s p)) s)
     | None \<Rightarrow> Some s)"

definition incref_parents ::
  "nat \<Rightarrow> extern \<Rightarrow> int \<Rightarrow> bool \<Rightarrow> bbp_state \<Rightarrow> parents option" where
  "incref_parents n env i logical s =
    (if \<not> logical then
       (case BBP_desc s i of
          Some b \<Rightarrow>
            let tp = (case theap (bats s b) of Some h \<Rightarrow> parentid (heaps s h) | None \<Rightarrow> i);
                tvp = (case tvheap (bats s b) of Some h \<Rightarrow> parentid (heaps s h) | None \<Rightarrow> i)
            in do {
              (pb, s1) \<leftarrow> (if tp \<noteq> i then BATdescriptor env tp s else Some (None, s));
              if tp \<noteq> i \<and> pb = None then Some (Parents_failed s1)
              else do {
                (pvb, s2) \<leftarrow> (if tvp \<noteq> i then BATdescriptor env tvp s1 else Some (None, s1));
                if tvp \<noteq> i \<and> pvb = None
                then map_option Parents_failed (unfix_desc n env pb s2)
                else Some (Parents tp tvp pb pvb s2)
              }
            }
        | None \<Rightarrow> Some (Parents i i None None s))
     else Some (Parents i i None None s))"

text \<open>The view takes over the heap of its parent: \<^verbatim>\<open>b->theap = pb->theap\<close>.\<close>

definition share_parent_heap :: "extern \<Rightarrow> nat \<Rightarrow> nat \<Rightarrow> bbp_state \<Rightarrow> bbp_state" where
  "share_parent_heap env b pb s =
    (if theap (bats s b) \<noteq> theap (bats s pb) then
       let s1 = (case theap (bats s pb) of Some h \<Rightarrow> HEAPincref env h s | None \<Rightarrow> s);
           s2 = (case theap (bats s1 b) of Some h \<Rightarrow> HEAPdecref env h False s1 | None \<Rightarrow> s1)
       in s2\<lparr>bats := (bats s2)(b := (bats s2 b)\<lparr>theap := theap (bats s2 pb)\<rparr>)\<rparr>
     else s)"

definition incref ::
  "nat \<Rightarrow> extern \<Rightarrow> int \<Rightarrow> bool \<Rightarrow> bool \<Rightarrow> bbp_state \<Rightarrow> (int \<times> bbp_state) option" where
  "incref n env i logical lock s =
    (if BBPcheck s i = 0 then Some (0, s)
     else do {
       p \<leftarrow> incref_parents n env i logical s;
       case p of
         Parents_failed s1 \<Rightarrow> Some (0, s1)
       | Parents tp tvp pb pvb s1 \<Rightarrow>
           if lock \<and> BBP_status s1 i \<inter> (BBPUNSTABLE \<union> {BBPLOADING}) \<noteq> {} then None
           else
             (case BBP_desc s1 i of
                None \<Rightarrow> Some (0, s1)
              | Some b \<Rightarrow>
                  if logical then
                    let s2 = upd_slot i (\<lambda>r. r\<lparr>lrefs := lrefs r + 1, pid := 0\<rparr>) s1
                    in Some (BBP_lrefs s2 i, s2)
                  else
                    let s2 = upd_slot i (\<lambda>r. r\<lparr>refs := refs r + 1\<rparr>) s1;
                        r = BBP_refs s2 i;
                        load = (r = 1 \<and> (tp \<noteq> i \<or> tvp \<noteq> i));
                        s3 = BBP_status_on i
                               ({BBPHOT} \<union> (if load then {BBPLOADING} else {})) s2
                    in if load then
                         let s4 = (if tp \<noteq> i
                                   then (case pb of
                                           Some p \<Rightarrow> share_parent_heap env b p s3
                                         | None \<Rightarrow> s3)
                                   else s3)
                         in Some (r, BBP_status_off i {BBPLOADING} s4)
                       else do {
                         s4 \<leftarrow> unfix_desc n env pb s3;
                         s5 \<leftarrow> unfix_desc n env pvb s4;
                         Some (r, s5)
                       })
     })"

definition BBPfix :: "nat \<Rightarrow> extern \<Rightarrow> int \<Rightarrow> bbp_state \<Rightarrow> (int \<times> bbp_state) option" where
  "BBPfix n env i s = incref n env i False (need_lock env s) s"

definition BBPretain :: "nat \<Rightarrow> extern \<Rightarrow> int \<Rightarrow> bbp_state \<Rightarrow> (int \<times> bbp_state) option" where
  "BBPretain n env i s = incref n env i True (need_lock env s) s"

subsection \<open>The descriptor of a BAT, and keepref\<close>

definition getBBPdescriptor ::
  "extern \<Rightarrow> int \<Rightarrow> bool \<Rightarrow> bbp_state \<Rightarrow> (nat option \<times> bbp_state) option" where
  "getBBPdescriptor env i lock s =
    (if BBPcheck s i = 0 then Some (None, GDKerror ''BBPcheck failed for bat id'' s)
     else
       let b = BBP_cache s i in
       if b = None \<or> BBP_status s i \<inter> BBPWAITING \<noteq> {} then
         (if BBP_status s i \<inter> BBPWAITING \<noteq> {} then None
          else if BBPvalid s i then
            (case BBP_cache s i of
               Some c \<Rightarrow> Some (Some c, s)
             | None \<Rightarrow>
                 let (l, s1) = BATload_intern env i lock (BBP_status_on i {BBPLOADING} s)
                 in Some (l, BBP_status_off i {BBPLOADING} s1))
          else Some (b, s))
       else Some (b, s))"

definition BBPdescriptor ::
  "extern \<Rightarrow> int \<Rightarrow> bbp_state \<Rightarrow> (nat option \<times> bbp_state) option" where
  "BBPdescriptor env i s = getBBPdescriptor env i (need_lock env s) s"

definition BBPkeepref :: "nat \<Rightarrow> extern \<Rightarrow> int \<Rightarrow> bbp_state \<Rightarrow> bbp_state option" where
  "BBPkeepref n env i s =
    (if BBPcheck s i \<noteq> 0 then
       let lock = need_lock env s in
       do {
         (r, s1) \<leftarrow> incref n env i True lock s;
         (b, s2) \<leftarrow> BBPdescriptor env i s1;
         case b of
           Some bp \<Rightarrow>
             let s3 = (if r = 1 then BATsettrivprop env bp s2 else s2);
                 (acc, s4) = BATsetaccess_READ env bp s3
             in if acc = None then Some s4
                else map_option snd (decref n env i False False lock s4)
         | None \<Rightarrow> map_option snd (decref n env i False False lock s2)
       }
     else Some s)"

subsection \<open>The trimmer\<close>

text \<open>The test of \<^verbatim>\<open>BBPtrim\<close> for one slot: whether \<^verbatim>\<open>swap\<close> becomes true.\<close>

definition BBPtrim_swap :: "bool \<Rightarrow> bbp_state \<Rightarrow> int \<Rightarrow> bool" where
  "BBPtrim_swap aggressive s bid =
    (let flag = {BBPUNLOADING, BBPSYNCING, BBPSAVING} \<union> (if \<not> aggressive then {BBPHOT} else {})
     in BBP_status s bid \<inter> flag = {} \<and>
        BBP_refs s bid = 0 \<and>
        BBP_lrefs s bid \<noteq> 0 \<and>
        (case BBP_cache s bid of
           None \<Rightarrow> False
         | Some b \<Rightarrow>
             batSharecnt (bats s b) = 0 \<and>
             \<not> isVIEW s b \<and>
             (\<not> BATdirty s b \<or>
              (aggressive \<and>
               (case theap (bats s b) of
                  Some h \<Rightarrow> storage (heaps s h) = STORE_MMAP | None \<Rightarrow> False) \<and>
               (case tvheap (bats s b) of
                  Some h \<Rightarrow> storage (heaps s h) = STORE_MMAP | None \<Rightarrow> True)))))"

definition BBPtrim_step ::
  "nat \<Rightarrow> extern \<Rightarrow> bool \<Rightarrow> int \<Rightarrow> bbp_state \<Rightarrow> bbp_state option" where
  "BBPtrim_step n env aggressive bid s =
    (if BBPtrim_swap aggressive s bid then
       (case BBP_cache s bid of
          Some b \<Rightarrow>
            do {
              (ret, s1) \<leftarrow> BBPfree n env b (BBP_status_on bid {BBPUNLOADING} s);
              Some (if ret \<noteq> GDK_SUCCEED then GDKerror ''unload failed for bat'' s1 else s1)
            }
        | None \<Rightarrow> Some s)
     else Some s)"

fun BBPtrim_loop ::
  "nat \<Rightarrow> extern \<Rightarrow> bool \<Rightarrow> int list \<Rightarrow> bbp_state \<Rightarrow> bbp_state option" where
  "BBPtrim_loop n env aggressive [] s = Some s"
| "BBPtrim_loop n env aggressive (bid # bids) s =
    do { s1 \<leftarrow> BBPtrim_step n env aggressive bid s; BBPtrim_loop n env aggressive bids s1 }"

definition BBPtrim :: "nat \<Rightarrow> extern \<Rightarrow> bool \<Rightarrow> bbp_state \<Rightarrow> bbp_state option" where
  "BBPtrim n env aggressive s = BBPtrim_loop n env aggressive [1 .. BBPsize s - 1] s"


subsection \<open>Examples of environments and pools\<close>

text \<open>
  An environment in which the functions of the other layers succeed and change nothing
  that the model sees, and small pools whose slot 1 holds a BAT with one tail heap.
  They serve to run the functions above on concrete inputs.
\<close>

definition env_ex :: extern where
  "env_ex = \<lparr>strHash = length, MT_getpid = 1, GDKvm_cursize = 0, GDK_vm_maxsize = 1048576,
     GDKdebug_tailchk = False, oom = (\<lambda>_. False), zalloc_fails = (\<lambda>_. False),
     BATdescriptor = (\<lambda>i s. Some (BBP_cache s i, s)),
     BATload_intern = (\<lambda>i l s. (None, s)),
     BATsettrivprop = (\<lambda>b s. s),
     BATsetaccess_READ = (\<lambda>b s. (Some b, s)),
     BATdelete = (\<lambda>b s. s), BATfree = (\<lambda>b s. s), BATdestroy = (\<lambda>b s. s),
     BATsave = (\<lambda>b s. (GDK_SUCCEED, s)),
     BATsave_iter = (\<lambda>b n s. (GDK_SUCCEED, s)),
     BATcheckmodes = (\<lambda>b s. (GDK_SUCCEED, s)),
     BAThashsave = (\<lambda>b p s. s), atomUnfix_all = (\<lambda>b s. s),
     VIEWunlink = (\<lambda>b s. s), VIEWdestroy = (\<lambda>b s. s),
     HEAPincref = (\<lambda>h s. s), HEAPdecref = (\<lambda>h r s. s),
     gettailname = (\<lambda>b. ''tail''),
     BBPbackup = (\<lambda>b sub s. (GDK_SUCCEED, s)),
     BBPdir_first = (\<lambda>sub l t s. (GDK_SUCCEED, s)),
     BBPdir_step = (\<lambda>bid sz n s. (n, s)),
     BBPdir_last = (\<lambda>n s. (GDK_SUCCEED, s))\<rparr>"

text \<open>The same environment when the virtual memory in use has reached its maximum.\<close>

definition env_tight :: extern where
  "env_tight = env_ex\<lparr>GDKvm_cursize := 1048576\<rparr>"

definition slot_ex :: "status_flag set \<Rightarrow> int \<Rightarrow> int \<Rightarrow> nat option \<Rightarrow> BBPrec" where
  "slot_ex st r l d = \<lparr>status = st, refs = r, lrefs = l, next' = 0,
     logical' = Some ''tmp_1'', bak = ''tmp_1'', physical = ''1'', cache = d, desc = d,
     pid = 0\<rparr>"

definition heap_ex :: "bool \<Rightarrow> Heap" where
  "heap_ex d = \<lparr>parentid = 1, dirty = d, farmid = 0, hsize = 4096, storage = STORE_MEM\<rparr>"

definition bat_ex :: "bool \<Rightarrow> BAT" where
  "bat_ex saved = \<lparr>batCacheid = 1, batSharecnt = 0, theap = Some 0, tvheap = None,
     batCount = 10, batInserted = 10, batCopiedtodisk = saved, batDirtydesc = False,
     batTransient = \<not> saved, creator_tid = 1\<rparr>"

definition fs_empty :: filesys where
  "fs_empty = \<lparr>dirs = (\<lambda>_. None), denied = {}\<rparr>"

definition pool_ex :: "BBPrec \<Rightarrow> BAT \<Rightarrow> Heap \<Rightarrow> bbp_state" where
  "pool_ex r b h = \<lparr>BBP = (\<lambda>_. slot_zero)(1 := r), BBPlimit = 16384, BBPsize = 2,
     BBP_free = 0, BBP_hash = Some (\<lambda>_. 0), BBP_mask = 16383,
     bats = (\<lambda>_. b), heaps = (\<lambda>_. h), locked_by = 0, BBPlogno = 0, BBPtransid = 0,
     backup_files = 0, backup_dir = 0, backup_subdir = 0, BBPunloadCnt = 0,
     farm_dirname = (\<lambda>_. None)(0 := Some ''db''), fs = fs_empty, errors = []\<rparr>"

subsection \<open>References to a slot without a descriptor\<close>

lemma incref_parents_nodesc:
  "BBP_desc s i = None \<Longrightarrow> incref_parents n env i logical s = Some (Parents i i None None s)"
  by (simp add: incref_parents_def)

lemma incref_nodesc:
  assumes "BBP_desc s i = None"
  shows "incref n env i logical lock s =
     (if BBPcheck s i \<noteq> 0 \<and> lock \<and> BBP_status s i \<inter> (BBPUNSTABLE \<union> {BBPLOADING}) \<noteq> {}
      then None else Some (0, s))"
  using assms by (simp add: incref_def incref_parents_nodesc)

text \<open>
  C10.  When slot \<open>i\<close> has no descriptor, \<^verbatim>\<open>BBPfix(i)\<close> and \<^verbatim>\<open>BBPretain(i)\<close> return 0
  and leave the whole state as it was, whether or not \<open>i\<close> passes \<^verbatim>\<open>BBPcheck\<close>, except
  in one case: the id passes \<^verbatim>\<open>BBPcheck\<close>, the lock is needed, and one of \<open>LOADING\<close>,
  \<open>UNLOADING\<close>, \<open>DELETING\<close> is on in the status of the slot.  Then \<^verbatim>\<open>incref\<close> waits
  for another thread to turn the bit off and does not return before; it changes nothing
  while it waits.
\<close>

theorem fix_retain_without_descriptor:
  assumes "BBP_desc s i = None"
  shows "BBPfix n env i s =
           (if BBPcheck s i \<noteq> 0 \<and> need_lock env s \<and>
               BBP_status s i \<inter> (BBPUNSTABLE \<union> {BBPLOADING}) \<noteq> {}
            then None else Some (0, s))
       \<and> BBPretain n env i s =
           (if BBPcheck s i \<noteq> 0 \<and> need_lock env s \<and>
               BBP_status s i \<inter> (BBPUNSTABLE \<union> {BBPLOADING}) \<noteq> {}
            then None else Some (0, s))"
  using assms by (simp add: BBPfix_def BBPretain_def incref_nodesc)

theorem fix_retain_without_descriptor_witness:
  "BBP_desc (pool_ex (slot_ex {BBPHOT} 1 0 None) (bat_ex True) (heap_ex False)) 1 = None
   \<and> BBPcheck (pool_ex (slot_ex {BBPHOT} 1 0 None) (bat_ex True) (heap_ex False)) 1 = 1
   \<and> BBPfix 2 env_ex 1 (pool_ex (slot_ex {BBPHOT} 1 0 None) (bat_ex True) (heap_ex False)) =
       Some (0, pool_ex (slot_ex {BBPHOT} 1 0 None) (bat_ex True) (heap_ex False))
   \<and> BBPretain 2 env_ex 1 (pool_ex (slot_ex {BBPHOT} 1 0 None) (bat_ex True) (heap_ex False)) =
       Some (0, pool_ex (slot_ex {BBPHOT} 1 0 None) (bat_ex True) (heap_ex False))"
proof -
  let ?s = "pool_ex (slot_ex {BBPHOT} 1 0 None) (bat_ex True) (heap_ex False)"
  have d: "BBP_desc ?s 1 = None"
    by (simp add: BBP_desc_def pool_ex_def slot_ex_def)
  have c: "BBPcheck ?s 1 = 1"
    by (simp add: BBPcheck_def is_bat_nil_def bat_nil_def BBP_logical_def pool_ex_def slot_ex_def)
  have st: "BBP_status ?s 1 \<inter> (BBPUNSTABLE \<union> {BBPLOADING}) = {}"
    by (simp add: BBP_status_def pool_ex_def slot_ex_def BBPUNSTABLE_def)
  show ?thesis
    using fix_retain_without_descriptor [OF d, of 2 env_ex] d c st by simp
qed

subsection \<open>When a BAT is unloaded\<close>

text \<open>
  The unload predicate in the words of the spec, for slot \<open>i\<close> with descriptor \<open>b\<close>:
  \<open>refs(i) == 0\<close>, \<open>sharecnt(b) == 0\<close>, not a view, none of \<open>UNLOADING\<close>, \<open>SYNCING\<close>,
  \<open>SAVING\<close> set, not dirty (or aggressive and all heaps memory-mapped), and
  \<open>lrefs == 0\<close> or \<open>PERSISTENT\<close> set.
\<close>

definition all_heaps_mmapped :: "bbp_state \<Rightarrow> nat \<Rightarrow> bool" where
  "all_heaps_mmapped s b =
    ((case theap (bats s b) of Some h \<Rightarrow> storage (heaps s h) = STORE_MMAP | None \<Rightarrow> False) \<and>
     (case tvheap (bats s b) of Some h \<Rightarrow> storage (heaps s h) = STORE_MMAP | None \<Rightarrow> True))"

definition spec_unload_predicate :: "bool \<Rightarrow> bbp_state \<Rightarrow> int \<Rightarrow> nat \<Rightarrow> bool" where
  "spec_unload_predicate aggressive s i b =
    (BBP_refs s i = 0 \<and> batSharecnt (bats s b) = 0 \<and> \<not> isVIEW s b \<and>
     BBP_status s i \<inter> {BBPUNLOADING, BBPSYNCING, BBPSAVING} = {} \<and>
     (\<not> BATdirty s b \<or> aggressive \<and> all_heaps_mmapped s b) \<and>
     (BBP_lrefs s i = 0 \<or> BBP_status s i \<inter> BBPPERSISTENT \<noteq> {}))"

text \<open>
  What \<^verbatim>\<open>decref\<close> tests, in terms of the state before the call.  \<open>redirtied\<close> says
  that \<^verbatim>\<open>decref\<close> turns a dirty bit back on before the test: the BAT has more rows than
  were committed, is not a view, and owns a heap.
\<close>

definition redirtied :: "bbp_state \<Rightarrow> int \<Rightarrow> nat \<Rightarrow> bool" where
  "redirtied s i b =
    (batCount (bats s b) > batInserted (bats s b) \<and> \<not> isVIEW s b \<and>
     ((case theap (bats s b) of Some h \<Rightarrow> parentid (heaps s h) = i | None \<Rightarrow> False) \<or>
      (case tvheap (bats s b) of Some h \<Rightarrow> parentid (heaps s h) = i | None \<Rightarrow> False)))"

definition unfix_unloads :: "extern \<Rightarrow> bbp_state \<Rightarrow> int \<Rightarrow> bool" where
  "unfix_unloads env s i =
    (BBP_lrefs s i = 0 \<or>
     (case BBP_cache s i of
        None \<Rightarrow> BBPTMP \<in> BBP_status s i
      | Some b \<Rightarrow>
          \<not> BATdirty s b \<and> \<not> redirtied s i b \<and>
          BBPSYNCING \<notin> BBP_status s i \<and>
          (BBPHOT \<in> decref_chkflag env s i \<longrightarrow>
             BBPHOT \<notin> BBP_status s i \<and> VIEWtparent s b = 0 \<and> VIEWvtparent s b = 0) \<and>
          BBP_status s i \<inter> BBPPERSISTENT \<noteq> {} \<and>
          \<not> GDKinmemory s (case theap (bats s b) of Some h \<Rightarrow> farmid (heaps s h) | None \<Rightarrow> 0) \<and>
          batSharecnt (bats s b) = 0))"

lemma decref_count_phys:
  assumes "BBP_refs s i = 1"
  shows "decref_count i False s =
     (0, (case BBP_cache s i of Some b \<Rightarrow> VIEWtparent s b | None \<Rightarrow> 0),
         (case BBP_cache s i of Some b \<Rightarrow> VIEWvtparent s b | None \<Rightarrow> 0),
      let s1 = upd_slot i (\<lambda>r. r\<lparr>refs := 0\<rparr>) s in
      (case BBP_cache s i of
         Some b \<Rightarrow> if VIEWtparent s b \<noteq> 0 \<or> VIEWvtparent s b \<noteq> 0
                   then BBP_status_on i {BBPHOT} s1 else s1
       | None \<Rightarrow> s1))"
  using assms
  by (auto simp: decref_count_def Let_def BBP_refs_def BBP_cache_def upd_slot_def
      VIEWtparent_def VIEWvtparent_def split: option.splits)

lemma upd_slot_simps [simp]:
  "bats (upd_slot i f s) = bats s" "heaps (upd_slot i f s) = heaps s"
  "farm_dirname (upd_slot i f s) = farm_dirname s"
  "BBP (upd_slot i f s) i = f (BBP s i)"
  "j \<noteq> i \<Longrightarrow> BBP (upd_slot i f s) j = BBP s j"
  "BBPsize (upd_slot i f s) = BBPsize s"
  by (simp_all add: upd_slot_def)

lemma decref_swap_unfix_nocache:
  assumes "BBP_refs s i = 1" "BBP_cache s i = None"
  shows "dv_swap (fst (decref_locked env i False s)) = unfix_unloads env s i"
  using assms
  by (simp add: decref_locked_def decref_count_phys decref_redirty_def decref_swap_def
      unfix_unloads_def Let_def BBP_refs_def BBP_lrefs_def BBP_cache_def BBP_status_def
      split: prod.splits)

lemma set_heap_dirty_simps [simp]:
  "BBP (set_heap_dirty h s) = BBP s" "bats (set_heap_dirty h s) = bats s"
  "farm_dirname (set_heap_dirty h s) = farm_dirname s"
  "heaps (set_heap_dirty h s) = (heaps s)(h := (heaps s h)\<lparr>dirty := True\<rparr>)"
  by (simp_all add: set_heap_dirty_def)

lemma BBP_status_on_simps [simp]:
  "bats (BBP_status_on i m s) = bats s" "heaps (BBP_status_on i m s) = heaps s"
  "farm_dirname (BBP_status_on i m s) = farm_dirname s"
  "BBP (BBP_status_on i m s) i = (BBP s i)\<lparr>status := status (BBP s i) \<union> m\<rparr>"
  by (simp_all add: BBP_status_on_def)

lemma decref_redirty_cached:
  assumes "BBP_cache s i = Some b"
  shows "BBP (snd (decref_redirty i s)) = BBP s"
    and "bats (snd (decref_redirty i s)) = bats s"
    and "farm_dirname (snd (decref_redirty i s)) = farm_dirname s"
    and "fst (decref_redirty i s) = (case theap (bats s b) of Some h \<Rightarrow> farmid (heaps s h) | None \<Rightarrow> 0)"
    and "BATdirty (snd (decref_redirty i s)) b \<longleftrightarrow> BATdirty s b \<or> redirtied s i b"
    and "hsize (heaps (snd (decref_redirty i s)) h) = hsize (heaps s h)"
  using assms
  by (auto simp: decref_redirty_def Let_def redirtied_def BATdirty_def BATdirtydata_def isVIEW_def
      split: option.splits)

lemma decref_chkflag_cong:
  "BBP_cache s' i = BBP_cache s i \<Longrightarrow> bats s' = bats s \<Longrightarrow>
   (\<And>h. hsize (heaps s' h) = hsize (heaps s h)) \<Longrightarrow>
   decref_chkflag env s' i = decref_chkflag env s i"
  by (simp add: decref_chkflag_def split: option.splits)

lemma decref_swap_unfix_cached:
  assumes r: "BBP_refs s i = 1" and c: "BBP_cache s i = Some b"
  shows "dv_swap (fst (decref_locked env i False s)) = unfix_unloads env s i"
proof -
  define s1 where "s1 = snd (snd (snd (decref_count i False s)))"
  define s2 where "s2 = snd (decref_redirty i s1)"
  define farm where "farm = fst (decref_redirty i s1)"
  have s1: "s1 = (if VIEWtparent s b \<noteq> 0 \<or> VIEWvtparent s b \<noteq> 0
                  then BBP_status_on i {BBPHOT} (upd_slot i (\<lambda>r. r\<lparr>refs := 0\<rparr>) s)
                  else upd_slot i (\<lambda>r. r\<lparr>refs := 0\<rparr>) s)"
    using r c by (simp add: s1_def decref_count_phys Let_def)
  have c1: "BBP_cache s1 i = Some b"
    using c by (simp add: s1 BBP_cache_def)
  have b1: "bats s1 = bats s" "heaps s1 = heaps s" "farm_dirname s1 = farm_dirname s"
    by (simp_all add: s1)
  have st1: "BBP_status s1 i = BBP_status s i \<union>
      (if VIEWtparent s b \<noteq> 0 \<or> VIEWvtparent s b \<noteq> 0 then {BBPHOT} else {})"
    by (simp add: s1 BBP_status_def)
  have rl1: "BBP_refs s1 i = 0" "BBP_lrefs s1 i = BBP_lrefs s i"
    by (simp_all add: s1 BBP_refs_def BBP_lrefs_def)
  have B2: "BBP s2 = BBP s1" "bats s2 = bats s" "farm_dirname s2 = farm_dirname s"
    using decref_redirty_cached(1-3)[OF c1] by (simp_all add: s2_def b1)
  have f2: "farm = (case theap (bats s b) of Some h \<Rightarrow> farmid (heaps s h) | None \<Rightarrow> 0)"
    using decref_redirty_cached(4)[OF c1] by (simp add: farm_def b1 cong: option.case_cong)
  have d2: "BATdirty s2 b \<longleftrightarrow> BATdirty s b \<or> redirtied s i b"
    using decref_redirty_cached(5)[OF c1]
    by (simp add: s2_def redirtied_def BATdirty_def BATdirtydata_def isVIEW_def b1 cong: option.case_cong)
  have h2: "\<And>h. hsize (heaps s2 h) = hsize (heaps s h)"
    using decref_redirty_cached(6)[OF c1] by (simp add: s2_def b1)
  have ck: "decref_chkflag env s2 i = decref_chkflag env s i"
    by (rule decref_chkflag_cong) (simp_all add: B2 h2 BBP_cache_def s1)
  have sw: "dv_swap (fst (decref_locked env i False s)) = decref_swap env s2 i farm"
    by (simp add: decref_locked_def s1_def s2_def farm_def Let_def split: prod.splits)
  have st2: "BBP_status s2 i = BBP_status s i \<union>
      (if VIEWtparent s b \<noteq> 0 \<or> VIEWvtparent s b \<noteq> 0 then {BBPHOT} else {})"
    using st1 by (simp add: BBP_status_def B2)
  have P1: "BBP_status s2 i \<inter> decref_chkflag env s i = {} \<longleftrightarrow>
      BBPSYNCING \<notin> BBP_status s i \<and>
      (BBPHOT \<in> decref_chkflag env s i \<longrightarrow>
         BBPHOT \<notin> BBP_status s i \<and> VIEWtparent s b = 0 \<and> VIEWvtparent s b = 0)"
    unfolding st2 by (auto simp: decref_chkflag_def Let_def)
  have P2: "BBP_status s2 i \<inter> BBPPERSISTENT \<noteq> {} \<longleftrightarrow> BBP_status s i \<inter> BBPPERSISTENT \<noteq> {}"
    unfolding st2 by (auto simp: BBPPERSISTENT_def)
  have R2: "BBP_refs s2 i = 0" "BBP_lrefs s2 i = BBP_lrefs s i" "BBP_cache s2 i = Some b"
    using rl1 c1 by (simp_all add: BBP_refs_def BBP_lrefs_def BBP_cache_def B2)
  have G2: "\<And>f. GDKinmemory s2 f = GDKinmemory s f"
    by (simp add: GDKinmemory_def B2)
  show ?thesis
    unfolding sw decref_swap_def unfix_unloads_def
    by (simp add: R2 c P1 P2 G2 d2 ck B2 f2)
qed



lemma unfix_unload_condition:
  assumes "BBP_refs s i = 1"
  shows "dv_swap (fst (decref_locked env i False s)) = unfix_unloads env s i"
  using assms decref_swap_unfix_cached decref_swap_unfix_nocache
  by (cases "BBP_cache s i") auto

text \<open>Evaluation of the examples.\<close>

lemma env_ex_simps [simp]:
  "strHash env_ex = length" "MT_getpid env_ex = 1" "GDKvm_cursize env_ex = 0"
  "GDK_vm_maxsize env_ex = 1048576" "GDKdebug_tailchk env_ex = False"
  "oom env_ex = (\<lambda>_. False)" "zalloc_fails env_ex = (\<lambda>_. False)"
  "BATdescriptor env_ex = (\<lambda>i s. Some (BBP_cache s i, s))"
  "BATload_intern env_ex = (\<lambda>i l s. (None, s))"
  "BATsettrivprop env_ex = (\<lambda>b s. s)"
  "BATsetaccess_READ env_ex = (\<lambda>b s. (Some b, s))"
  "BATdelete env_ex = (\<lambda>b s. s)" "BATfree env_ex = (\<lambda>b s. s)" "BATdestroy env_ex = (\<lambda>b s. s)"
  "BATsave env_ex = (\<lambda>b s. (GDK_SUCCEED, s))"
  "BATsave_iter env_ex = (\<lambda>b n s. (GDK_SUCCEED, s))"
  "BATcheckmodes env_ex = (\<lambda>b s. (GDK_SUCCEED, s))"
  "BAThashsave env_ex = (\<lambda>b p s. s)" "atomUnfix_all env_ex = (\<lambda>b s. s)"
  "VIEWunlink env_ex = (\<lambda>b s. s)" "VIEWdestroy env_ex = (\<lambda>b s. s)"
  "HEAPincref env_ex = (\<lambda>h s. s)" "HEAPdecref env_ex = (\<lambda>h r s. s)"
  "gettailname env_ex = (\<lambda>b. ''tail'')"
  "BBPbackup env_ex = (\<lambda>b sub s. (GDK_SUCCEED, s))"
  "BBPdir_first env_ex = (\<lambda>sub l t s. (GDK_SUCCEED, s))"
  "BBPdir_step env_ex = (\<lambda>bid sz n s. (n, s))"
  "BBPdir_last env_ex = (\<lambda>n s. (GDK_SUCCEED, s))"
  by (simp_all add: env_ex_def)

lemma pool_ex_simps [simp]:
  "BBP (pool_ex r b h) 1 = r" "BBPlimit (pool_ex r b h) = 16384" "BBPsize (pool_ex r b h) = 2"
  "BBP_free (pool_ex r b h) = 0" "BBP_hash (pool_ex r b h) = Some (\<lambda>_. 0)"
  "BBP_mask (pool_ex r b h) = 16383" "bats (pool_ex r b h) = (\<lambda>_. b)" "heaps (pool_ex r b h) = (\<lambda>_. h)"
  "locked_by (pool_ex r b h) = 0" "farm_dirname (pool_ex r b h) = (\<lambda>_. None)(0 := Some ''db'')"
  "errors (pool_ex r b h) = []" "BBPunloadCnt (pool_ex r b h) = 0"
  by (simp_all add: pool_ex_def)

lemma upd_slot_fields [simp]:
  "BBP (upd_slot i f s) = (BBP s)(i := f (BBP s i))"
  "BBPlimit (upd_slot i f s) = BBPlimit s"
  "BBP_free (upd_slot i f s) = BBP_free s" "BBP_hash (upd_slot i f s) = BBP_hash s"
  "BBP_mask (upd_slot i f s) = BBP_mask s" "locked_by (upd_slot i f s) = locked_by s"
  "errors (upd_slot i f s) = errors s" "BBPunloadCnt (upd_slot i f s) = BBPunloadCnt s"
  "fs (upd_slot i f s) = fs s"
  by (simp_all add: upd_slot_def)

lemmas acc_defs = BBP_status_def BBP_refs_def BBP_lrefs_def BBP_cache_def BBP_desc_def BBP_logical_def
  BBP_next_def BBP_bak_def BBP_physical_def BBP_pid_def
lemmas st_defs = BBP_status_on_def BBP_status_off_def BBP_status_set_def


lemma env_tight_simps [simp]:
  "GDKvm_cursize env_tight = 1048576" "GDK_vm_maxsize env_tight = 1048576"
  "MT_getpid env_tight = 1"
  "BATsettrivprop env_tight = (\<lambda>b s. s)"
  "BATsetaccess_READ env_tight = (\<lambda>b s. (Some b, s))"
  "BATfree env_tight = (\<lambda>b s. s)" "BAThashsave env_tight = (\<lambda>b p s. s)"
  by (simp_all add: env_tight_def env_ex_def)

text \<open>
  Two pools.  In \<open>pool_dirty_temp\<close> slot 1 is a new transient BAT: pinned once, with no
  logical reference, never saved, its heap dirty.  In \<open>pool_retained\<close> slot 1 is a
  clean transient BAT with an image on disk that is not pinned but retained once, and
  is not hot.
\<close>

definition pool_dirty_temp :: bbp_state where
  "pool_dirty_temp =
     pool_ex (slot_ex {BBPLOADED, BBPHOT} 1 0 (Some 0)) (bat_ex False) (heap_ex True)"

definition pool_retained :: bbp_state where
  "pool_retained = pool_ex (slot_ex {BBPLOADED} 0 1 (Some 0)) (bat_ex True) (heap_ex False)"

text \<open>
  Claim C3, as the spec states it, fails on the code.  \<^verbatim>\<open>BBPunfix\<close> on the new
  transient BAT of \<open>pool_dirty_temp\<close> takes the decision to unload, destroys the BAT and
  clears its slot, although the BAT is dirty and the predicate of the spec is false.
  \<^verbatim>\<open>BBPtrim(false)\<close> decides to unload the BAT of \<open>pool_retained\<close>, although it has a
  logical reference and is not persistent, so that the predicate of the spec is false.
\<close>

theorem unload_predicate_counterexample:
  "dv_swap (fst (decref_locked env_ex 1 False pool_dirty_temp))
   \<and> map_option (\<lambda>(r, s'). (r, BBP_cache s' 1, BBP_logical s' 1))
        (BBPunfix (Suc (Suc 0)) env_ex 1 pool_dirty_temp) = Some (0, None, None)
   \<and> \<not> spec_unload_predicate False (upd_slot 1 (\<lambda>r. r\<lparr>refs := 0\<rparr>) pool_dirty_temp) 1 0
   \<and> BBPtrim_swap False pool_retained 1
   \<and> \<not> spec_unload_predicate False pool_retained 1 0"
proof (intro conjI)
  show "dv_swap (fst (decref_locked env_ex 1 False pool_dirty_temp))"
    by (simp add: decref_locked_def decref_count_def decref_redirty_def decref_swap_def Let_def
        pool_dirty_temp_def slot_ex_def bat_ex_def heap_ex_def acc_defs
        VIEWtparent_def VIEWvtparent_def isVIEW_def)
  show "map_option (\<lambda>(r, s'). (r, BBP_cache s' 1, BBP_logical s' 1))
        (BBPunfix (Suc (Suc 0)) env_ex 1 pool_dirty_temp) = Some (0, None, None)"
    by (simp add: BBPunfix_def decref_body_def BBPdestroy_body_def BBPcheck_def is_bat_nil_def
        bat_nil_def decref_locked_def decref_count_def decref_redirty_def decref_swap_def Let_def
        pool_dirty_temp_def slot_ex_def bat_ex_def heap_ex_def acc_defs st_defs
        VIEWtparent_def VIEWvtparent_def isVIEW_def BBPclear_def bbpclear_def BBPuncacheit_def
        need_lock_def BBPtmpcheck_def)
  show "\<not> spec_unload_predicate False (upd_slot 1 (\<lambda>r. r\<lparr>refs := 0\<rparr>) pool_dirty_temp) 1 0"
    by (simp add: spec_unload_predicate_def pool_dirty_temp_def slot_ex_def bat_ex_def
        heap_ex_def acc_defs BATdirty_def)
  show "BBPtrim_swap False pool_retained 1"
    by (simp add: BBPtrim_swap_def pool_retained_def slot_ex_def bat_ex_def heap_ex_def
        acc_defs isVIEW_def BATdirty_def BATdirtydata_def)
  show "\<not> spec_unload_predicate False pool_retained 1 0"
    by (simp add: spec_unload_predicate_def pool_retained_def slot_ex_def bat_ex_def
        heap_ex_def acc_defs BBPPERSISTENT_def)
qed

text \<open>
  Claim C3, amended to what the code tests.  When \<^verbatim>\<open>decref\<close> has just brought the
  physical count of slot \<open>i\<close> from 1 to 0, it decides to unload exactly when \<open>lrefs\<close> is 0
  (whatever else holds), or, for a cached BAT, when the BAT is not dirty and no dirty
  bit is turned back on, \<open>SYNCING\<close> is off, \<open>HOT\<close> is off and the BAT has no parent
  (tested only while memory is not tight), \<open>PERSISTENT\<close> is on, the farm of the tail heap
  is not in memory and the share count is 0, or, for a BAT that is not cached, when \<open>TMP\<close>
  is on.  \<^verbatim>\<open>BBPtrim\<close> decides to unload slot \<open>i\<close> exactly when none of \<open>UNLOADING\<close>,
  \<open>SYNCING\<close>, \<open>SAVING\<close> is on, \<open>HOT\<close> is off unless the trim is aggressive, \<open>refs\<close> is
  0, \<open>lrefs\<close> is not 0, and the BAT is cached, not shared, not a view, and not dirty
  (or the trim is aggressive and all its heaps are memory-mapped).
\<close>

theorem unload_conditions:
  "(BBP_refs s i = 1 \<longrightarrow>
      dv_swap (fst (decref_locked env i False s)) =
        (BBP_lrefs s i = 0 \<or>
         (case BBP_cache s i of
            None \<Rightarrow> BBPTMP \<in> BBP_status s i
          | Some b \<Rightarrow>
              \<not> BATdirty s b \<and> \<not> redirtied s i b \<and>
              BBPSYNCING \<notin> BBP_status s i \<and>
              (BBPHOT \<in> decref_chkflag env s i \<longrightarrow>
                 BBPHOT \<notin> BBP_status s i \<and> VIEWtparent s b = 0 \<and> VIEWvtparent s b = 0) \<and>
              BBP_status s i \<inter> BBPPERSISTENT \<noteq> {} \<and>
              \<not> GDKinmemory s
                  (case theap (bats s b) of Some h \<Rightarrow> farmid (heaps s h) | None \<Rightarrow> 0) \<and>
              batSharecnt (bats s b) = 0)))
   \<and> BBPtrim_swap aggressive s i =
        (BBPUNLOADING \<notin> BBP_status s i \<and> BBPSYNCING \<notin> BBP_status s i \<and>
         BBPSAVING \<notin> BBP_status s i \<and> (\<not> aggressive \<longrightarrow> BBPHOT \<notin> BBP_status s i) \<and>
         BBP_refs s i = 0 \<and> BBP_lrefs s i \<noteq> 0 \<and>
         (\<exists>b. BBP_cache s i = Some b \<and> batSharecnt (bats s b) = 0 \<and> \<not> isVIEW s b \<and>
              (\<not> BATdirty s b \<or> aggressive \<and> all_heaps_mmapped s b)))"
proof (intro conjI impI)
  assume "BBP_refs s i = 1"
  then show "dv_swap (fst (decref_locked env i False s)) =
        (BBP_lrefs s i = 0 \<or>
         (case BBP_cache s i of
            None \<Rightarrow> BBPTMP \<in> BBP_status s i
          | Some b \<Rightarrow>
              \<not> BATdirty s b \<and> \<not> redirtied s i b \<and>
              BBPSYNCING \<notin> BBP_status s i \<and>
              (BBPHOT \<in> decref_chkflag env s i \<longrightarrow>
                 BBPHOT \<notin> BBP_status s i \<and> VIEWtparent s b = 0 \<and> VIEWvtparent s b = 0) \<and>
              BBP_status s i \<inter> BBPPERSISTENT \<noteq> {} \<and>
              \<not> GDKinmemory s
                  (case theap (bats s b) of Some h \<Rightarrow> farmid (heaps s h) | None \<Rightarrow> 0) \<and>
              batSharecnt (bats s b) = 0))"
    by (simp add: unfix_unload_condition unfix_unloads_def)
next
  show "BBPtrim_swap aggressive s i =
        (BBPUNLOADING \<notin> BBP_status s i \<and> BBPSYNCING \<notin> BBP_status s i \<and>
         BBPSAVING \<notin> BBP_status s i \<and> (\<not> aggressive \<longrightarrow> BBPHOT \<notin> BBP_status s i) \<and>
         BBP_refs s i = 0 \<and> BBP_lrefs s i \<noteq> 0 \<and>
         (\<exists>b. BBP_cache s i = Some b \<and> batSharecnt (bats s b) = 0 \<and> \<not> isVIEW s b \<and>
              (\<not> BATdirty s b \<or> aggressive \<and> all_heaps_mmapped s b)))"
    by (cases "BBP_cache s i") (auto simp: BBPtrim_swap_def Let_def all_heaps_mmapped_def)
qed

theorem unload_conditions_witness:
  "BBP_refs pool_dirty_temp 1 = 1
   \<and> BBP_lrefs pool_dirty_temp 1 = 0
   \<and> dv_swap (fst (decref_locked env_ex 1 False pool_dirty_temp))
   \<and> BBPHOT \<notin> BBP_status pool_retained 1
   \<and> BBPtrim_swap False pool_retained 1"
proof -
  have r: "BBP_refs pool_dirty_temp 1 = 1" and l: "BBP_lrefs pool_dirty_temp 1 = 0"
    by (simp_all add: pool_dirty_temp_def slot_ex_def acc_defs)
  have t: "BBPUNLOADING \<notin> BBP_status pool_retained 1 \<and> BBPSYNCING \<notin> BBP_status pool_retained 1 \<and>
         BBPSAVING \<notin> BBP_status pool_retained 1 \<and> BBPHOT \<notin> BBP_status pool_retained 1 \<and>
         BBP_refs pool_retained 1 = 0 \<and> BBP_lrefs pool_retained 1 \<noteq> 0 \<and>
         BBP_cache pool_retained 1 = Some 0 \<and> batSharecnt (bats pool_retained 0) = 0 \<and>
         \<not> isVIEW pool_retained 0 \<and> \<not> BATdirty pool_retained 0"
    by (simp add: pool_retained_def slot_ex_def bat_ex_def heap_ex_def acc_defs isVIEW_def
        BATdirty_def BATdirtydata_def)
  show ?thesis
    using unload_conditions [of pool_dirty_temp 1 env_ex False]
      unload_conditions [of pool_retained 1 env_ex False] r l t
    by simp
qed


subsection \<open>keepref\<close>

text \<open>
  In \<open>pool_persistent\<close> slot 1 is a persistent BAT that is loaded, clean, pinned once
  and retained once, and hot.  In \<open>env_tight\<close> memory is tight, so \<^verbatim>\<open>decref\<close> does not
  look at \<open>HOT\<close>, and \<^verbatim>\<open>BATsetaccess\<close> finds the BAT read-only already.
\<close>

definition pool_persistent :: bbp_state where
  "pool_persistent =
     pool_ex (slot_ex {BBPLOADED, BBPEXISTING, BBPHOT} 1 1 (Some 0)) (bat_ex True) (heap_ex False)"

text \<open>
  Claim C4 says that \<^verbatim>\<open>BBPkeepref\<close> skips the unload test, so that the BAT is still
  loaded when it returns.  The code calls \<^verbatim>\<open>decref\<close>, which takes the test: on
  \<open>pool_persistent\<close> the call does what \<^verbatim>\<open>BBPretain\<close> followed by \<^verbatim>\<open>BBPunfix\<close> does,
  and returns with the BAT unloaded (no cached descriptor, \<open>LOADED\<close> off), with
  \<open>refs = 0\<close> and \<open>lrefs = 2\<close>.
\<close>

theorem BBPkeepref_unloads:
  "map_option (\<lambda>s'. (BBP_refs s' 1, BBP_lrefs s' 1, BBP_cache s' 1, BBP_desc s' 1,
                     BBPLOADED \<in> BBP_status s' 1))
     (BBPkeepref (Suc (Suc (Suc 0))) env_tight 1 pool_persistent) =
     Some (0, 2, None, Some 0, False)
   \<and> BBPkeepref (Suc (Suc (Suc 0))) env_tight 1 pool_persistent =
     Option.bind (BBPretain (Suc (Suc (Suc 0))) env_tight 1 pool_persistent)
       (\<lambda>(r, s1). map_option snd (BBPunfix (Suc (Suc (Suc 0))) env_tight 1 s1))"
proof (intro conjI)
  show "map_option (\<lambda>s'. (BBP_refs s' 1, BBP_lrefs s' 1, BBP_cache s' 1, BBP_desc s' 1,
                     BBPLOADED \<in> BBP_status s' 1))
     (BBPkeepref (Suc (Suc (Suc 0))) env_tight 1 pool_persistent) =
     Some (0, 2, None, Some 0, False)"
    by (simp add: BBPkeepref_def incref_def incref_parents_def BBPdescriptor_def
        getBBPdescriptor_def decref_body_def BBPfree_body_def BBPsave_def BBPcheck_def
        is_bat_nil_def BBPvalid_def bat_nil_def decref_locked_def decref_count_def
        decref_redirty_def decref_swap_def decref_chkflag_def Let_def pool_persistent_def
        slot_ex_def bat_ex_def heap_ex_def acc_defs st_defs VIEWtparent_def VIEWvtparent_def
        isVIEW_def BBPuncacheit_def BATdirty_def BATdirtydata_def need_lock_def BBPWAITING_def
        BBPUNSTABLE_def BBPPERSISTENT_def GDKinmemory_def)
  show "BBPkeepref (Suc (Suc (Suc 0))) env_tight 1 pool_persistent =
     Option.bind (BBPretain (Suc (Suc (Suc 0))) env_tight 1 pool_persistent)
       (\<lambda>(r, s1). map_option snd (BBPunfix (Suc (Suc (Suc 0))) env_tight 1 s1))"
    by (simp add: BBPkeepref_def BBPretain_def BBPunfix_def incref_def incref_parents_def
        BBPdescriptor_def getBBPdescriptor_def BBPcheck_def is_bat_nil_def BBPvalid_def
        bat_nil_def Let_def pool_persistent_def slot_ex_def bat_ex_def heap_ex_def acc_defs
        st_defs need_lock_def BBPWAITING_def BBPUNSTABLE_def)
qed


subsection \<open>Names of temporary BATs\<close>

text \<open>
  \<^verbatim>\<open>strtol(s, NULL, 8)\<close>: white space is skipped, a sign is read, and the octal
  digits that follow are the value, 0 when there is none; the value is kept within the
  range of a 64-bit \<^verbatim>\<open>long\<close>.  Assigned to a \<^verbatim>\<open>bat\<close>, the value is cut to 32
  bits (\<open>long_to_bat\<close>).
\<close>

definition isspace :: "char \<Rightarrow> bool" where
  "isspace c = (c = CHR '' '' \<or> (9 \<le> (of_char c :: nat) \<and> (of_char c :: nat) \<le> 13))"

definition is_octal :: "char \<Rightarrow> bool" where
  "is_octal c = (48 \<le> (of_char c :: nat) \<and> (of_char c :: nat) \<le> 55)"

definition GDKisdigit :: "char \<Rightarrow> bool" where
  "GDKisdigit c = (48 \<le> (of_char c :: nat) \<and> (of_char c :: nat) \<le> 57)"

fun octal_value :: "nat \<Rightarrow> string \<Rightarrow> nat" where
  "octal_value acc [] = acc"
| "octal_value acc (c # cs) = octal_value (8 * acc + ((of_char c :: nat) - 48)) cs"

definition strtol8 :: "string \<Rightarrow> int" where
  "strtol8 s =
    (let s1 = dropWhile isspace s;
         neg = (s1 \<noteq> [] \<and> hd s1 = CHR ''-'');
         s2 = (if s1 \<noteq> [] \<and> (hd s1 = CHR ''-'' \<or> hd s1 = CHR ''+'') then tl s1 else s1);
         v = int (octal_value 0 (takeWhile is_octal s2))
     in if neg then max (- v) (- (2 ^ 63)) else min v (2 ^ 63 - 1))"

definition long_to_bat :: "int \<Rightarrow> int" where
  "long_to_bat x = (x + 2 ^ 31) mod 2 ^ 32 - 2 ^ 31"

definition BBPnamecheck :: "string \<Rightarrow> int" where
  "BBPnamecheck n = (if BBPtmpcheck n then long_to_bat (strtol8 (drop 4 n)) else 0)"

text \<open>
  \<^verbatim>\<open>"%o"\<close> of \<^verbatim>\<open>snprintf\<close>, and the default name \<^verbatim>\<open>"tmp_%o"\<close>.  The buffers of
  a slot are large enough for every id below \<open>N_BBPINIT * BBPINIT\<close> (the static
  assertions of \<^verbatim>\<open>BBPinit\<close>), so \<^verbatim>\<open>snprintf\<close> does not cut the names.
\<close>

definition digit_char :: "nat \<Rightarrow> char" where
  "digit_char d = ''01234567'' ! d"

fun octal :: "nat \<Rightarrow> string" where
  "octal n = (if n < 8 then [digit_char n] else octal (n div 8) @ [digit_char (n mod 8)])"

declare octal.simps [simp del]

definition tmp_name :: "int \<Rightarrow> string" where
  "tmp_name i = ''tmp_'' @ octal (nat i)"

text \<open>\<^verbatim>\<open>BBPsubdir_recursive\<close> and \<^verbatim>\<open>BBPgetsubdir\<close>, as the string they write.\<close>

function BBPsubdir_recursive :: "int \<Rightarrow> string" where
  "BBPsubdir_recursive i =
    (let j = i div 64 in
     (if j \<ge> 64 then BBPsubdir_recursive j @ ''/'' else []) @
     [digit_char (nat ((j mod 64) div 8)), digit_char (nat (j mod 8))])"
  by pat_completeness auto
termination
  by (relation "measure nat") auto

declare BBPsubdir_recursive.simps [simp del]

definition BBPgetsubdir :: "int \<Rightarrow> string" where
  "BBPgetsubdir i = (if i \<ge> 64 then BBPsubdir_recursive i else [])"

subsection \<open>Building the hash and extending the pool\<close>

text \<open>
  The loop that sets \<open>BBP_mask\<close> in \<^verbatim>\<open>BBPinithash\<close>.  The mask starts at 1 and is
  doubled, so it is positive in the loop.
\<close>

function BBP_mask_loop :: "int \<Rightarrow> int \<Rightarrow> int" where
  "BBP_mask_loop m limit = (if 0 < m \<and> 2 * m \<le> limit then BBP_mask_loop (2 * m) limit else m)"
  by pat_completeness auto
termination
  by (relation "measure (\<lambda>(m, limit). nat (limit - m))") auto

declare BBP_mask_loop.simps [simp del]

text \<open>One round of \<^verbatim>\<open>while (--size > 0)\<close>, for the slot \<open>size\<close> after the decrement.\<close>

definition BBPinithash_slot :: "extern \<Rightarrow> int \<Rightarrow> bbp_state \<Rightarrow> bbp_state option" where
  "BBPinithash_slot env size' s =
    (case BBP_logical s size' of
       Some n \<Rightarrow>
         if (n = [] \<or> hd n \<noteq> CHR ''.'') \<and> \<not> BBPtmpcheck n then BBP_insert env size' s
         else Some s
     | None \<Rightarrow>
         Some ((upd_slot size' (\<lambda>r. r\<lparr>next' := BBP_free s\<rparr>) s)\<lparr>BBP_free := size'\<rparr>))"

fun BBPinithash_loop :: "extern \<Rightarrow> nat \<Rightarrow> bbp_state \<Rightarrow> bbp_state option" where
  "BBPinithash_loop env 0 s = Some s"
| "BBPinithash_loop env (Suc k) s =
    (if k > 0 then do { s1 \<leftarrow> BBPinithash_slot env (int k) s; BBPinithash_loop env k s1 }
     else Some s)"

definition BBPinithash ::
  "extern \<Rightarrow> int \<Rightarrow> int \<Rightarrow> bbp_state \<Rightarrow> (gdk_return \<times> bbp_state) option" where
  "BBPinithash env j size' s =
    (let m = BBP_mask_loop 1 (BBPlimit s) in
     if zalloc_fails env (nat m)
     then Some (GDK_FAIL, s\<lparr>BBP_hash := None, BBP_mask := m\<rparr>)
     else map_option (Pair GDK_SUCCEED)
            (BBPinithash_loop env (nat size')
               (s\<lparr>BBP_hash := Some (\<lambda>_. 0), BBP_mask := m - 1\<rparr>)))"

text \<open>A new block of \<open>BBPINIT\<close> slots at \<open>BBPlimit\<close>.\<close>

definition alloc_block :: "config \<Rightarrow> bbp_state \<Rightarrow> bbp_state" where
  "alloc_block cfg s =
    s\<lparr>BBP := (\<lambda>i. if BBPlimit s \<le> i \<and> i < BBPlimit s + int (BBPINIT cfg) then slot_zero
                   else BBP s i),
      BBPlimit := BBPlimit s + int (BBPINIT cfg)\<rparr>"

function BBPextend_blocks ::
  "config \<Rightarrow> extern \<Rightarrow> int \<Rightarrow> bbp_state \<Rightarrow> gdk_return \<times> bbp_state" where
  "BBPextend_blocks cfg env newsize s =
    (if BBPlimit s < newsize then
       (if zalloc_fails env (BBPINIT cfg)
        then (GDK_FAIL, GDKerror ''failed to extend BAT pool'' s)
        else BBPextend_blocks cfg env newsize (alloc_block cfg s))
     else (GDK_SUCCEED, s))"
  by pat_completeness auto
termination
  by (relation "measure (\<lambda>(cfg, env, newsize, s). nat (newsize - BBPlimit s))")
     (auto simp: alloc_block_def BBPINIT_def)

declare BBPextend_blocks.simps [simp del]

definition BBPextend ::
  "config \<Rightarrow> extern \<Rightarrow> int \<Rightarrow> bool \<Rightarrow> int \<Rightarrow> bbp_state \<Rightarrow> (gdk_return \<times> bbp_state) option" where
  "BBPextend cfg env idx buildhash newsize s =
    (if newsize \<ge> int (N_BBPINIT cfg * BBPINIT cfg)
     then Some (GDK_FAIL, GDKerror ''trying to extend BAT pool beyond the limit'' s)
     else
       (case BBPextend_blocks cfg env newsize s of
          (GDK_FAIL, s1) \<Rightarrow> Some (GDK_FAIL, s1)
        | (GDK_SUCCEED, s1) \<Rightarrow>
            if buildhash
            then BBPinithash env idx newsize (s1\<lparr>BBP_hash := None, BBP_free := 0\<rparr>)
            else Some (GDK_SUCCEED, s1)))"

subsection \<open>Looking a name up\<close>

text \<open>
  The walk along a bucket in \<^verbatim>\<open>BBP_find\<close>, with the steps counted as in
  \<open>BBP_delete_loop\<close>.  The result of \<^verbatim>\<open>BBP_find\<close> is \<open>None\<close> when the walk does not
  end and where the C code indexes the pool with a negative id or reads through a NULL
  pointer.
\<close>

fun BBP_find_loop :: "nat \<Rightarrow> string \<Rightarrow> int \<Rightarrow> bbp_state \<Rightarrow> int option" where
  "BBP_find_loop 0 n i s = None"
| "BBP_find_loop (Suc k) n i s =
    (if i = 0 then Some 0
     else case BBP_logical s i of
            None \<Rightarrow> None
          | Some l \<Rightarrow> if l = n then Some i else BBP_find_loop k n (BBP_next s i) s)"

definition BBP_find :: "extern \<Rightarrow> string \<Rightarrow> bool \<Rightarrow> bbp_state \<Rightarrow> int option" where
  "BBP_find env n lock s =
    (let i = BBPnamecheck n in
     if i \<noteq> 0 then
       (if i \<ge> BBPsize s then Some 0
        else if i < 0 then None
        else if BBP_logical s i = None \<or> BBP_logical s i \<noteq> Some n then Some 0
        else Some i)
     else if n = [] \<or> hd n \<noteq> CHR ''.'' then
       (case BBP_hash s of
          None \<Rightarrow> None
        | Some h \<Rightarrow> BBP_find_loop (nat (BBPlimit s) + 1) n (h (hash_idx env s n)) s)
     else Some i)"

definition BBPindex :: "extern \<Rightarrow> string \<Rightarrow> bbp_state \<Rightarrow> int option" where
  "BBPindex env n s = BBP_find env n True s"

subsection \<open>A new slot\<close>

definition maybeextend ::
  "config \<Rightarrow> extern \<Rightarrow> int \<Rightarrow> bbp_state \<Rightarrow> (gdk_return \<times> bbp_state) option" where
  "maybeextend cfg env idx s =
    (let size' = BBPsize s in
     if size' \<ge> BBPlimit s then
       do {
         (r, s1) \<leftarrow> BBPextend cfg env idx True (size' + 1) s;
         if r \<noteq> GDK_SUCCEED then Some (GDK_FAIL, s1)
         else Some (GDK_SUCCEED, s1\<lparr>BBPsize := size' + 1, BBP_free := size'\<rparr>)
       }
     else Some (GDK_SUCCEED, s\<lparr>BBPsize := size' + 1, BBP_free := size'\<rparr>))"

text \<open>
  \<^verbatim>\<open>BBPinsert\<close>, for the descriptor at address \<open>bn\<close>; the result is the new id, or 0.
\<close>

definition BBPinsert ::
  "config \<Rightarrow> extern \<Rightarrow> nat \<Rightarrow> bbp_state \<Rightarrow> (int \<times> bbp_state) option" where
  "BBPinsert cfg env bn s =
    do {
      (r, s1) \<leftarrow> (if BBP_free s \<le> 0 then maybeextend cfg env 0 s else Some (GDK_SUCCEED, s));
      if r \<noteq> GDK_SUCCEED then Some (0, s1)
      else
        let i = BBP_free s1;
            s2 = s1\<lparr>BBP_free := BBP_next s1 i\<rparr>;
            s3 = s2\<lparr>bats := (bats s2)(bn := (bats s2 bn)\<lparr>batCacheid := i,
                                                        creator_tid := MT_getpid env\<rparr>)\<rparr>;
            s4 = upd_slot i (\<lambda>r. r\<lparr>status := {BBPDELETING, BBPHOT}, cache := None, desc := None,
                                   refs := 1, lrefs := 0, pid := MT_getpid env\<rparr>) s3;
            fresh = (BBP_bak s4 i = []);
            s5 = (if fresh then upd_slot i (\<lambda>r. r\<lparr>bak := tmp_name i\<rparr>) s4 else s4);
            len = (if fresh then length (tmp_name i) else 0)
        in if len \<ge> FILENAME_MAX cfg then Some (0, GDKerror ''impossible error'' s5)
           else
             let s6 = upd_slot i (\<lambda>r. r\<lparr>logical' := Some (bak r)\<rparr>) s5 in
             if \<not> GDKinmemory s6 0 \<and> BBP_physical s6 i = [] then
               let dirname = BBPgetsubdir i;
                   name = (if dirname \<noteq> [] then dirname @ ''/'' @ octal (nat i)
                           else octal (nat i));
                   s7 = upd_slot i (\<lambda>r. r\<lparr>physical := name\<rparr>) s6
               in if length name \<ge> FILENAME_MAX cfg then Some (0, s7) else Some (i, s7)
             else Some (i, s6)
    }"

subsection \<open>Renaming\<close>

text \<open>The results of \<^verbatim>\<open>BBPrename\<close>: 0 and the four error codes of \<^verbatim>\<open>gdk.h\<close>.\<close>

datatype rename_result =
    RENAME_0 | BBPRENAME_ALREADY | BBPRENAME_ILLEGAL | BBPRENAME_LONG | BBPRENAME_MEMORY

definition BBPrename ::
  "config \<Rightarrow> extern \<Rightarrow> int \<Rightarrow> string option \<Rightarrow> bbp_state \<Rightarrow> (rename_result \<times> bbp_state) option"
where
  "BBPrename cfg env bid nme0 s0 =
    do {
      (b, s) \<leftarrow> BBPdescriptor env bid s0;
      case b of
        None \<Rightarrow> Some (RENAME_0, s)
      | Some bp \<Rightarrow>
          let fresh = (nme0 = None \<and> BBP_bak s bid = []);
              s1 = (if fresh then upd_slot bid (\<lambda>r. r\<lparr>bak := tmp_name bid\<rparr>) s else s)
          in if fresh \<and> length (tmp_name bid) \<ge> sizeof_bak cfg
             then Some (BBPRENAME_LONG, GDKerror ''BBP default filename too long'' s1)
             else
               let nme = (case nme0 of None \<Rightarrow> BBP_bak s1 bid | Some n \<Rightarrow> n);
                   tmpid = BBPnamecheck nme
               in if BBP_logical s1 bid = Some nme then Some (RENAME_0, s1)
                  else if tmpid \<noteq> 0 \<and> tmpid \<noteq> bid
                  then Some (BBPRENAME_ILLEGAL, GDKerror ''illegal temporary name'' s1)
                  else if length (BBPgetsubdir bid) + (length nme + 1) + 1 \<ge> IDLENGTH cfg
                  then Some (BBPRENAME_LONG, GDKerror ''illegal temporary name'' s1)
                  else
                    do {
                      i \<leftarrow> BBP_find env nme False s1;
                      if i \<noteq> 0 then Some (BBPRENAME_ALREADY, GDKerror ''name is in use'' s1)
                      else if nme \<noteq> BBP_bak s1 bid \<and> oom env nme then Some (BBPRENAME_MEMORY, s1)
                      else
                        do {
                          s2 \<leftarrow> (case BBP_logical s1 bid of
                                   Some l \<Rightarrow> if \<not> BBPtmpcheck l then BBP_delete env bid s1
                                             else Some s1
                                 | None \<Rightarrow> Some s1);
                          let s3 = upd_slot bid (\<lambda>r. r\<lparr>logical' := Some nme\<rparr>) s2;
                          s4 \<leftarrow> (if tmpid = 0 then BBP_insert env bid s3 else Some s3);
                          Some (RENAME_0,
                                if \<not> batTransient (bats s4 bp)
                                then BBP_status_on bid {BBPRENAMED} s4 else s4)
                        }
                    }
    }"

subsection \<open>The name \<open>tmp_0\<close>\<close>

text \<open>The counted walks, unfolded one step at a time for any positive count.\<close>

lemma BBP_find_loop_unfold:
  "0 < k \<Longrightarrow> BBP_find_loop k n i s =
    (if i = 0 then Some 0
     else case BBP_logical s i of
            None \<Rightarrow> None
          | Some l \<Rightarrow> if l = n then Some i else BBP_find_loop (k - 1) n (BBP_next s i) s)"
  by (cases k) (simp_all split: option.splits)

lemma BBP_delete_loop_unfold:
  "0 < k \<Longrightarrow> BBP_delete_loop k n h s =
    (let i = link_get s h in
     if i = 0 then Some s
     else case BBP_logical s i of
            None \<Rightarrow> None
          | Some l \<Rightarrow> if l = n then Some (link_set h (BBP_next s i) s)
                      else BBP_delete_loop (k - 1) n (Next_of i) s)"
  by (cases k) (simp_all add: Let_def split: option.splits)

text \<open>
  The hash of the example environment is the length of the name, so \<open>tmp_0\<close> falls in
  bucket 5 and \<open>abc\<close> in bucket 3.
\<close>

lemma hash_of_5: "Suc (Suc (Suc (Suc (Suc 0)))) AND (16383::nat) = 5"
proof -
  have e: "Suc (Suc (Suc (Suc (Suc 0)))) = (5::nat)" by simp
  show ?thesis unfolding e by simp
qed

lemma hash_of_3: "Suc (Suc (Suc 0)) AND (16383::nat) = 3"
proof -
  have e: "Suc (Suc (Suc 0)) = (3::nat)" by simp
  show ?thesis unfolding e by simp
qed

lemma namecheck_tmp_0: "BBPnamecheck ''tmp_0'' = 0"
  by (simp add: BBPnamecheck_def BBPtmpcheck_def strtol8_def long_to_bat_def isspace_def
      is_octal_def Let_def)

lemma namecheck_abc: "BBPnamecheck ''abc'' = 0"
  by (simp add: BBPnamecheck_def BBPtmpcheck_def)

text \<open>
  A pool with one transient BAT, id 1, loaded, under its default name \<open>tmp_1\<close>, and an
  empty hash; and the same pool after the BAT has been renamed to \<open>tmp_0\<close>.
\<close>

definition pool_one :: bbp_state where
  "pool_one = pool_ex (slot_ex {BBPLOADED, BBPHOT} 1 0 (Some 0)) (bat_ex False) (heap_ex True)"

definition pool_renamed :: bbp_state where
  "pool_renamed =
    (upd_slot 1 (\<lambda>r. r\<lparr>next' := 0\<rparr>) (upd_slot 1 (\<lambda>r. r\<lparr>logical' := Some ''tmp_0''\<rparr>) pool_one))
      \<lparr>BBP_hash := Some ((\<lambda>_. 0)(5 := 1))\<rparr>"

lemma rename_tmp_0:
  "BBPrename cfg64 env_ex 1 (Some ''tmp_0'') pool_one = Some (RENAME_0, pool_renamed)"
  by (simp add: BBPrename_def BBPdescriptor_def getBBPdescriptor_def BBPcheck_def is_bat_nil_def
      bat_nil_def BBPvalid_def need_lock_def BBPWAITING_def BBPUNSTABLE_def pool_one_def
      slot_ex_def bat_ex_def heap_ex_def acc_defs st_defs Let_def namecheck_tmp_0
      BBPgetsubdir_def cfg64_def BBP_find_def BBP_insert_def hash_idx_def BBPtmpcheck_def
      BBP_find_loop_unfold hash_of_5 pool_renamed_def)

lemma find_tmp_0:
  "BBP_find env_ex ''tmp_0'' True pool_renamed = Some 1"
  by (simp add: pool_renamed_def pool_one_def slot_ex_def BBP_find_def namecheck_tmp_0
      hash_idx_def hash_of_5 BBP_find_loop_unfold acc_defs)

lemma find_tmp_0_empty_hash:
  "BBP_find env_ex ''tmp_0'' True (pool_renamed\<lparr>BBP_hash := Some (\<lambda>_. 0)\<rparr>) = Some 0"
  by (simp add: pool_renamed_def pool_one_def slot_ex_def BBP_find_def namecheck_tmp_0
      hash_idx_def hash_of_5 BBP_find_loop_unfold acc_defs)

lemma rename_tmp_0_again:
  "map_option (\<lambda>(r, s'). (r, BBP_logical s' 1, map_option (\<lambda>h. (h 3, h 5)) (BBP_hash s')))
     (BBPrename cfg64 env_ex 1 (Some ''abc'') pool_renamed) =
   Some (RENAME_0, Some ''abc'', Some (1, 1))"
  by (simp add: BBPrename_def BBPdescriptor_def getBBPdescriptor_def BBPcheck_def is_bat_nil_def
      bat_nil_def BBPvalid_def need_lock_def BBPWAITING_def BBPUNSTABLE_def pool_one_def
      slot_ex_def bat_ex_def heap_ex_def acc_defs st_defs Let_def namecheck_abc
      BBPgetsubdir_def cfg64_def BBP_find_def BBP_insert_def hash_idx_def BBPtmpcheck_def
      BBP_find_loop_unfold hash_of_3 pool_renamed_def)

text \<open>
  C6.  The name \<open>tmp_0\<close> is of the form \<open>tmp_<octal>\<close> (\<^verbatim>\<open>BBPtmpcheck\<close> holds), but
  \<^verbatim>\<open>BBPnamecheck\<close> decodes it to 0, which \<^verbatim>\<open>BBPrename\<close> and \<^verbatim>\<open>BBP_find\<close> read as
  "not a temporary name".  So \<^verbatim>\<open>BBPrename(1, "tmp_0")\<close> succeeds and inserts the name into
  the hash (bucket 5 goes from 0 to 1), although slot 0 does not bear it and the id of
  the BAT is 1; the lookup of \<open>tmp_0\<close> walks the bucket and returns 1, and returns 0 once
  the bucket is emptied; and since the removal from the hash is guarded by
  \<^verbatim>\<open>BBPtmpcheck\<close>, a second rename to \<open>abc\<close> leaves the entry in bucket 5 behind.
\<close>

theorem rename_to_tmp_0_is_hashed:
  "BBPtmpcheck ''tmp_0'' \<and> BBPnamecheck ''tmp_0'' = 0 \<and>
   BBP_hash pool_one = Some (\<lambda>_. 0) \<and>
   BBPrename cfg64 env_ex 1 (Some ''tmp_0'') pool_one = Some (RENAME_0, pool_renamed) \<and>
   BBP_logical pool_renamed 1 = Some ''tmp_0'' \<and>
   BBP_logical pool_renamed 0 = None \<and>
   map_option (\<lambda>h. h (hash_idx env_ex pool_renamed ''tmp_0'')) (BBP_hash pool_renamed) = Some 1 \<and>
   BBP_find env_ex ''tmp_0'' True pool_renamed = Some 1 \<and>
   BBP_find env_ex ''tmp_0'' True (pool_renamed\<lparr>BBP_hash := Some (\<lambda>_. 0)\<rparr>) = Some 0 \<and>
   map_option (\<lambda>(r, s'). (r, BBP_logical s' 1, map_option (\<lambda>h. (h 3, h 5)) (BBP_hash s')))
     (BBPrename cfg64 env_ex 1 (Some ''abc'') pool_renamed) =
   Some (RENAME_0, Some ''abc'', Some (1, 1))"
proof -
  have "BBPtmpcheck ''tmp_0''"
    by (simp add: BBPtmpcheck_def)
  moreover have "BBP_hash pool_one = Some (\<lambda>_. 0)"
    by (simp add: pool_one_def)
  moreover have "BBP_logical pool_renamed 1 = Some ''tmp_0''"
    by (simp add: pool_renamed_def pool_one_def acc_defs)
  moreover have "BBP_logical pool_renamed 0 = None"
    by (simp add: pool_renamed_def pool_one_def acc_defs pool_ex_def slot_zero_def)
  moreover have "map_option (\<lambda>h. h (hash_idx env_ex pool_renamed ''tmp_0'')) (BBP_hash pool_renamed) = Some 1"
    by (simp add: pool_renamed_def pool_one_def hash_idx_def hash_of_5)
  ultimately show ?thesis
    using namecheck_tmp_0 rename_tmp_0 find_tmp_0 find_tmp_0_empty_hash rename_tmp_0_again
    by simp
qed

subsection \<open>The limit of the pool\<close>


text \<open>
  The part of \<^verbatim>\<open>BBPinit\<close> that builds the pool when there is no catalog entry to read
  (\<open>bbpsize = 1\<close>): the free list is emptied, the block table is cleared, the first block
  is allocated, \<open>BBPsize\<close> is set to 1 and the hash is built.  Slots of blocks that are not
  allocated are never read by the functions below; they are given the value \<open>slot_zero\<close>.
\<close>

definition BBPinit_empty :: "config \<Rightarrow> extern \<Rightarrow> bbp_state \<Rightarrow> (gdk_return \<times> bbp_state) option" where
  "BBPinit_empty cfg env s =
    do {
      (r, s1) \<leftarrow> BBPextend cfg env 0 False 1 (s\<lparr>BBP_free := 0, BBPlimit := 0, BBP := (\<lambda>_. slot_zero)\<rparr>);
      if r \<noteq> GDK_SUCCEED then Some (GDK_FAIL, s1)
      else BBPinithash env 0 1 (s1\<lparr>BBPsize := 1\<rparr>)
    }"

text \<open>One call of \<^verbatim>\<open>BBPinsert\<close> for each descriptor of the list; the ids returned, in order.\<close>

fun BBPinsert_all ::
  "config \<Rightarrow> extern \<Rightarrow> nat list \<Rightarrow> bbp_state \<Rightarrow> (int list \<times> bbp_state) option" where
  "BBPinsert_all cfg env [] s = Some ([], s)"
| "BBPinsert_all cfg env (bn # bns) s =
    do {
      (i, s1) \<leftarrow> BBPinsert cfg env bn s;
      (js, s2) \<leftarrow> BBPinsert_all cfg env bns s1;
      Some (i # js, s2)
    }"

text \<open>
  The names that \<^verbatim>\<open>BBPinsert\<close> writes for an id below the limit are shorter than
  \<open>FILENAME_MAX\<close>.
\<close>

definition names_fit :: "config \<Rightarrow> bool" where
  "names_fit cfg =
    (\<forall>i \<in> {1 ..< int (N_BBPINIT cfg * BBPINIT cfg)}.
       length (tmp_name i) < FILENAME_MAX cfg \<and>
       length (BBPgetsubdir i) + length (octal (nat i)) + 1 < FILENAME_MAX cfg)"

text \<open>
  A pool in which ids were only handed out, never given back: the free list is empty,
  the slots below \<open>BBPsize\<close> have a name, the slots from \<open>BBPsize\<close> to \<open>BBPlimit\<close> are as
  \<^verbatim>\<open>BBPextend\<close> left them, and \<open>BBPlimit\<close> is a number of whole blocks within the limit.
\<close>

definition pool_inv :: "config \<Rightarrow> bbp_state \<Rightarrow> bool" where
  "pool_inv cfg s \<longleftrightarrow>
     BBP_free s = 0 \<and> 1 \<le> BBPsize s \<and> BBPsize s \<le> BBPlimit s \<and>
     BBPlimit s \<le> int (N_BBPINIT cfg * BBPINIT cfg) \<and> int (BBPINIT cfg) dvd BBPlimit s \<and>
     BBP_hash s \<noteq> None \<and>
     (\<forall>i. 0 < i \<and> i < BBPsize s \<longrightarrow> BBP_logical s i \<noteq> None) \<and>
     (\<forall>i. BBPsize s \<le> i \<and> i < BBPlimit s \<longrightarrow> BBP s i = slot_zero)"

lemma BBP_insert_named:
  assumes "BBP_hash s \<noteq> None" "BBP_logical s k \<noteq> None"
  shows "\<exists>s'. BBP_insert env k s = Some s' \<and> BBP_free s' = BBP_free s \<and> BBPsize s' = BBPsize s \<and>
          BBPlimit s' = BBPlimit s \<and> BBP_hash s' \<noteq> None \<and>
          (\<forall>i. BBP_logical s' i = BBP_logical s i) \<and> (\<forall>i. i \<noteq> k \<longrightarrow> BBP s' i = BBP s i)"
  using assms by (auto simp: BBP_insert_def Let_def upd_slot_def BBP_logical_def split: option.splits)

lemma BBPinithash_slot_named:
  assumes "BBP_hash s \<noteq> None" "BBP_logical s k \<noteq> None"
  shows "\<exists>s'. BBPinithash_slot env k s = Some s' \<and> BBP_free s' = BBP_free s \<and> BBPsize s' = BBPsize s \<and>
          BBPlimit s' = BBPlimit s \<and> BBP_hash s' \<noteq> None \<and>
          (\<forall>i. BBP_logical s' i = BBP_logical s i) \<and> (\<forall>i. i \<noteq> k \<longrightarrow> BBP s' i = BBP s i)"
proof (cases "BBP_logical s k")
  case None
  with assms show ?thesis by simp
next
  case (Some n)
  show ?thesis
  proof (cases "(n = [] \<or> hd n \<noteq> CHR ''.'') \<and> \<not> BBPtmpcheck n")
    case True
    with Some have "BBPinithash_slot env k s = BBP_insert env k s"
      by (simp add: BBPinithash_slot_def)
    with BBP_insert_named[OF assms, of env] show ?thesis by simp
  next
    case False
    with Some have "BBPinithash_slot env k s = Some s"
      by (auto simp: BBPinithash_slot_def)
    with assms show ?thesis by simp
  qed
qed

lemma BBPinithash_loop_named:
  assumes "BBP_hash s \<noteq> None" "\<forall>i. 0 < i \<and> i < int k \<longrightarrow> BBP_logical s i \<noteq> None"
  shows "\<exists>s'. BBPinithash_loop env k s = Some s' \<and> BBP_free s' = BBP_free s \<and> BBPsize s' = BBPsize s \<and>
          BBPlimit s' = BBPlimit s \<and> BBP_hash s' \<noteq> None \<and>
          (\<forall>i. BBP_logical s' i = BBP_logical s i) \<and> (\<forall>i. int k \<le> i \<longrightarrow> BBP s' i = BBP s i)"
  using assms
proof (induction k arbitrary: s)
  case 0
  then show ?case by simp
next
  case (Suc k)
  show ?case
  proof (cases "k > 0")
    case False
    then show ?thesis using Suc.prems by simp
  next
    case True
    have named: "BBP_logical s (int k) \<noteq> None"
      using Suc.prems(2) True by simp
    from BBPinithash_slot_named[OF Suc.prems(1) named, of env]
    obtain s1 where s1: "BBPinithash_slot env (int k) s = Some s1" "BBP_free s1 = BBP_free s"
      "BBPsize s1 = BBPsize s" "BBPlimit s1 = BBPlimit s" "BBP_hash s1 \<noteq> None"
      "\<forall>i. BBP_logical s1 i = BBP_logical s i" "\<forall>i. i \<noteq> int k \<longrightarrow> BBP s1 i = BBP s i"
      by blast
    have "\<forall>i. 0 < i \<and> i < int k \<longrightarrow> BBP_logical s1 i \<noteq> None"
      using Suc.prems(2) s1(6) by simp
    from Suc.IH[OF s1(5) this]
    obtain s' where s': "BBPinithash_loop env k s1 = Some s'" "BBP_free s' = BBP_free s1"
      "BBPsize s' = BBPsize s1" "BBPlimit s' = BBPlimit s1" "BBP_hash s' \<noteq> None"
      "\<forall>i. BBP_logical s' i = BBP_logical s1 i" "\<forall>i. int k \<le> i \<longrightarrow> BBP s' i = BBP s1 i"
      by blast
    have "BBPinithash_loop env (Suc k) s = Some s'"
      using True s1(1) s'(1) by simp
    moreover have "\<forall>i. int (Suc k) \<le> i \<longrightarrow> BBP s' i = BBP s i"
      using s'(7) s1(7) by simp
    ultimately show ?thesis
      using s1 s' by simp
  qed
qed

lemma BBPinsert_after:
  assumes ext: "maybeextend cfg env 0 s = Some (GDK_SUCCEED, s1)"
    and free: "BBP_free s = 0" "BBP_free s1 = i"
    and zero: "BBP s1 i = slot_zero"
    and fit: "length (tmp_name i) < FILENAME_MAX cfg"
             "length (BBPgetsubdir i) + length (octal (nat i)) + 1 < FILENAME_MAX cfg"
  shows "\<exists>s'. BBPinsert cfg env bn s = Some (i, s') \<and> BBP_free s' = 0 \<and> BBPsize s' = BBPsize s1 \<and>
          BBPlimit s' = BBPlimit s1 \<and> BBP_hash s' = BBP_hash s1 \<and> BBP_logical s' i \<noteq> None \<and>
          (\<forall>j. j \<noteq> i \<longrightarrow> BBP s' j = BBP s1 j)"
  using assms
  by (simp add: BBPinsert_def Let_def upd_slot_def acc_defs BBP_next_def BBP_bak_def
      BBP_physical_def slot_zero_def GDKinmemory_def)

lemma maybeextend_room:
  assumes "BBPsize s < BBPlimit s"
  shows "maybeextend cfg env 0 s = Some (GDK_SUCCEED, s\<lparr>BBPsize := BBPsize s + 1, BBP_free := BBPsize s\<rparr>)"
  using assms by (simp add: maybeextend_def Let_def)

lemma BBPextend_full:
  assumes "int (N_BBPINIT cfg * BBPINIT cfg) \<le> newsize"
  shows "BBPextend cfg env idx b newsize s =
          Some (GDK_FAIL, GDKerror ''trying to extend BAT pool beyond the limit'' s)"
  using assms by (simp add: BBPextend_def)

lemma BBPinsert_full:
  assumes "BBP_free s = 0" "BBPsize s = BBPlimit s" "int (N_BBPINIT cfg * BBPINIT cfg) \<le> BBPsize s"
  shows "BBPinsert cfg env bn s =
          Some (0, GDKerror ''trying to extend BAT pool beyond the limit'' s)"
  using assms by (simp add: BBPinsert_def maybeextend_def Let_def BBPextend_full)

lemma BBPextend_blocks_one:
  assumes "BBPlimit s < newsize" "newsize \<le> BBPlimit s + int (BBPINIT cfg)" "\<not> zalloc_fails env (BBPINIT cfg)"
  shows "BBPextend_blocks cfg env newsize s = (GDK_SUCCEED, alloc_block cfg s)"
proof -
  have "BBPextend_blocks cfg env newsize s = BBPextend_blocks cfg env newsize (alloc_block cfg s)"
    using assms by (subst BBPextend_blocks.simps) simp
  also have "\<dots> = (GDK_SUCCEED, alloc_block cfg s)"
    using assms by (subst BBPextend_blocks.simps) (simp add: alloc_block_def)
  finally show ?thesis .
qed

lemma maybeextend_grow:
  assumes inv: "pool_inv cfg s" and full: "BBPsize s = BBPlimit s"
    and lim: "BBPsize s < int (N_BBPINIT cfg * BBPINIT cfg)"
    and B: "1 \<le> BBPINITLOG cfg" and za: "\<forall>n. \<not> zalloc_fails env n"
  shows "\<exists>s1. maybeextend cfg env 0 s = Some (GDK_SUCCEED, s1) \<and> BBP_free s1 = BBPsize s \<and>
          BBPsize s1 = BBPsize s + 1 \<and> BBPlimit s1 = BBPlimit s + int (BBPINIT cfg) \<and>
          BBP_hash s1 \<noteq> None \<and> BBP s1 (BBPsize s) = slot_zero \<and>
          (\<forall>i. 0 < i \<and> i < BBPsize s \<longrightarrow> BBP_logical s1 i \<noteq> None) \<and>
          (\<forall>i. BBPsize s < i \<and> i < BBPlimit s1 \<longrightarrow> BBP s1 i = slot_zero)"
proof -
  let ?B = "int (BBPINIT cfg)"
  let ?n = "BBPsize s"
  have B2: "2 \<le> ?B"
  proof -
    have "(2::int) ^ 1 \<le> 2 ^ BBPINITLOG cfg" using B by (intro power_increasing) simp_all
    then show ?thesis by (simp add: BBPINIT_def)
  qed
  from inv have pos: "1 \<le> ?n" and dv: "?B dvd BBPlimit s" and hs: "BBP_hash s \<noteq> None"
    and nm: "\<forall>i. 0 < i \<and> i < ?n \<longrightarrow> BBP_logical s i \<noteq> None"
    by (simp_all add: pool_inv_def)
  from dv obtain m where m: "BBPlimit s = ?B * m" by (auto simp: dvd_def)
  have "?B * m < ?B * int (N_BBPINIT cfg)"
    using lim full m by (simp add: mult.commute)
  then have "m < int (N_BBPINIT cfg)" using B2 by (simp add: mult_less_cancel_left)
  then have "m + 1 \<le> int (N_BBPINIT cfg)" by simp
  then have "?B * (m + 1) \<le> ?B * int (N_BBPINIT cfg)" using B2 by (intro mult_left_mono) simp_all
  then have room: "?n + ?B \<le> int (N_BBPINIT cfg * BBPINIT cfg)"
    using full m by (simp add: algebra_simps)
  then have lt: "?n + 1 < int (N_BBPINIT cfg * BBPINIT cfg)" using B2 by simp
  have blocks: "BBPextend_blocks cfg env (?n + 1) s = (GDK_SUCCEED, alloc_block cfg s)"
    using full B2 za by (intro BBPextend_blocks_one) simp_all
  define s0 where "s0 = (alloc_block cfg s)\<lparr>BBP_hash := None, BBP_free := 0\<rparr>"
  define m0 where "m0 = BBP_mask_loop 1 (BBPlimit s0)"
  define s2 where "s2 = s0\<lparr>BBP_hash := Some (\<lambda>_. 0), BBP_mask := m0 - 1\<rparr>"
  have ext: "BBPextend cfg env 0 True (?n + 1) s = BBPinithash env 0 (?n + 1) s0"
    using lt blocks by (simp add: BBPextend_def s0_def)
  have ih: "BBPinithash env 0 (?n + 1) s0 =
             map_option (Pair GDK_SUCCEED) (BBPinithash_loop env (nat (?n + 1)) s2)"
    using za by (simp add: BBPinithash_def Let_def s2_def m0_def)
  have z: "BBP s2 ?n = slot_zero"
    using full B2 by (simp add: s2_def s0_def alloc_block_def)
  have nat_eq: "nat (?n + 1) = Suc (nat ?n)" using pos by simp
  define s3 where "s3 = (upd_slot ?n (\<lambda>r. r\<lparr>next' := 0\<rparr>) s2)\<lparr>BBP_free := ?n\<rparr>"
  have slot: "BBPinithash_slot env ?n s2 = Some s3"
    using z by (simp add: BBPinithash_slot_def BBP_logical_def slot_zero_def s3_def s2_def s0_def)
  have loop1: "BBPinithash_loop env (nat (?n + 1)) s2 = BBPinithash_loop env (nat ?n) s3"
    using pos slot by (simp add: nat_eq)
  have s3_low: "\<forall>i. i \<noteq> ?n \<longrightarrow> BBP s3 i = BBP (alloc_block cfg s) i"
    by (simp add: s3_def s2_def s0_def upd_slot_def)
  have s3_named: "\<forall>i. 0 < i \<and> i < int (nat ?n) \<longrightarrow> BBP_logical s3 i \<noteq> None"
    using nm full pos by (auto simp: s3_def s2_def s0_def upd_slot_def BBP_logical_def alloc_block_def)
  have s3_hash: "BBP_hash s3 \<noteq> None" by (simp add: s3_def s2_def upd_slot_def)
  from BBPinithash_loop_named[OF s3_hash s3_named, of env]
  obtain s4 where s4: "BBPinithash_loop env (nat ?n) s3 = Some s4" "BBP_free s4 = BBP_free s3"
    "BBPsize s4 = BBPsize s3" "BBPlimit s4 = BBPlimit s3" "BBP_hash s4 \<noteq> None"
    "\<forall>i. BBP_logical s4 i = BBP_logical s3 i" "\<forall>i. int (nat ?n) \<le> i \<longrightarrow> BBP s4 i = BBP s3 i"
    by blast
  define s1 where "s1 = s4\<lparr>BBPsize := ?n + 1, BBP_free := ?n\<rparr>"
  have me: "maybeextend cfg env 0 s = Some (GDK_SUCCEED, s1)"
    using full ext ih loop1 s4(1) by (simp add: maybeextend_def Let_def s1_def)
  have lim1: "BBPlimit s1 = BBPlimit s + ?B"
    using s4(4) by (simp add: s1_def s3_def s2_def s0_def upd_slot_def alloc_block_def)
  have z3: "BBP s3 ?n = slot_zero"
    using z by (simp add: s3_def upd_slot_def slot_zero_def)
  have z1: "BBP s1 ?n = slot_zero"
    using s4(7) z3 pos by (simp add: s1_def)
  have named1: "\<forall>i. 0 < i \<and> i < ?n \<longrightarrow> BBP_logical s1 i \<noteq> None"
    using s4(6) s3_named pos by (simp add: s1_def BBP_logical_def)
  have above: "\<forall>i. ?n < i \<and> i < BBPlimit s1 \<longrightarrow> BBP s1 i = slot_zero"
  proof (intro allI impI)
    fix i assume i: "?n < i \<and> i < BBPlimit s1"
    then have "BBP s1 i = BBP s3 i" using s4(7) pos by (simp add: s1_def)
    also have "\<dots> = BBP (alloc_block cfg s) i" using i s3_low by simp
    also have "\<dots> = slot_zero" using i full lim1 by (simp add: alloc_block_def)
    finally show "BBP s1 i = slot_zero" .
  qed
  show ?thesis
    using me z1 named1 above lim1 s4(5) by (simp add: s1_def)
qed

lemma BBPinsert_step:
  assumes inv: "pool_inv cfg s"
    and lim: "BBPsize s < int (N_BBPINIT cfg * BBPINIT cfg)"
    and B: "1 \<le> BBPINITLOG cfg" and za: "\<forall>n. \<not> zalloc_fails env n"
    and fit: "names_fit cfg"
  shows "\<exists>s'. BBPinsert cfg env bn s = Some (BBPsize s, s') \<and> pool_inv cfg s' \<and>
          BBPsize s' = BBPsize s + 1"
proof -
  let ?n = "BBPsize s"
  from inv have free: "BBP_free s = 0" and pos: "1 \<le> ?n" and le: "?n \<le> BBPlimit s"
    and top: "BBPlimit s \<le> int (N_BBPINIT cfg * BBPINIT cfg)"
    and dv: "int (BBPINIT cfg) dvd BBPlimit s" and hs: "BBP_hash s \<noteq> None"
    and nm: "\<forall>i. 0 < i \<and> i < ?n \<longrightarrow> BBP_logical s i \<noteq> None"
    and zr: "\<forall>i. ?n \<le> i \<and> i < BBPlimit s \<longrightarrow> BBP s i = slot_zero"
    by (simp_all add: pool_inv_def)
  from fit pos lim have fits: "length (tmp_name ?n) < FILENAME_MAX cfg"
    "length (BBPgetsubdir ?n) + length (octal (nat ?n)) + 1 < FILENAME_MAX cfg"
    by (simp_all add: names_fit_def)
  have "\<exists>s1. maybeextend cfg env 0 s = Some (GDK_SUCCEED, s1) \<and> BBP_free s1 = ?n \<and>
          BBPsize s1 = ?n + 1 \<and> BBPlimit s1 \<le> int (N_BBPINIT cfg * BBPINIT cfg) \<and>
          int (BBPINIT cfg) dvd BBPlimit s1 \<and> ?n + 1 \<le> BBPlimit s1 \<and>
          BBP_hash s1 \<noteq> None \<and> BBP s1 ?n = slot_zero \<and>
          (\<forall>i. 0 < i \<and> i < ?n \<longrightarrow> BBP_logical s1 i \<noteq> None) \<and>
          (\<forall>i. ?n < i \<and> i < BBPlimit s1 \<longrightarrow> BBP s1 i = slot_zero)"
  proof (cases "?n < BBPlimit s")
    case True
    with maybeextend_room[OF True, of cfg env] top dv hs nm zr show ?thesis
      by (simp add: BBP_logical_def)
  next
    case False
    with le have full: "?n = BBPlimit s" by simp
    from maybeextend_grow[OF inv full lim B za]
    obtain s1 where s1: "maybeextend cfg env 0 s = Some (GDK_SUCCEED, s1)" "BBP_free s1 = ?n"
      "BBPsize s1 = ?n + 1" "BBPlimit s1 = BBPlimit s + int (BBPINIT cfg)"
      "BBP_hash s1 \<noteq> None" "BBP s1 ?n = slot_zero"
      "\<forall>i. 0 < i \<and> i < ?n \<longrightarrow> BBP_logical s1 i \<noteq> None"
      "\<forall>i. ?n < i \<and> i < BBPlimit s1 \<longrightarrow> BBP s1 i = slot_zero"
      by blast
    have B1: "1 \<le> int (BBPINIT cfg)" by (simp add: BBPINIT_def)
    from dv obtain m where m: "BBPlimit s = int (BBPINIT cfg) * m" by (auto simp: dvd_def)
    have "int (BBPINIT cfg) * m < int (BBPINIT cfg) * int (N_BBPINIT cfg)"
      using lim full m by (simp add: mult.commute)
    then have "m < int (N_BBPINIT cfg)" using B1 by (simp add: mult_less_cancel_left)
    then have "m + 1 \<le> int (N_BBPINIT cfg)" by simp
    then have "int (BBPINIT cfg) * (m + 1) \<le> int (BBPINIT cfg) * int (N_BBPINIT cfg)"
      using B1 by (intro mult_left_mono) simp_all
    then have top1: "BBPlimit s1 \<le> int (N_BBPINIT cfg * BBPINIT cfg)"
      using s1(4) m by (simp add: algebra_simps)
    have dv1: "int (BBPINIT cfg) dvd BBPlimit s1" using dv s1(4) by simp
    have "?n + 1 \<le> BBPlimit s1" using full s1(4) B1 by simp
    with s1 top1 dv1 show ?thesis by blast
  qed
  then obtain s1 where s1: "maybeextend cfg env 0 s = Some (GDK_SUCCEED, s1)" "BBP_free s1 = ?n"
      "BBPsize s1 = ?n + 1" "BBPlimit s1 \<le> int (N_BBPINIT cfg * BBPINIT cfg)"
      "int (BBPINIT cfg) dvd BBPlimit s1" "?n + 1 \<le> BBPlimit s1"
      "BBP_hash s1 \<noteq> None" "BBP s1 ?n = slot_zero"
      "\<forall>i. 0 < i \<and> i < ?n \<longrightarrow> BBP_logical s1 i \<noteq> None"
      "\<forall>i. ?n < i \<and> i < BBPlimit s1 \<longrightarrow> BBP s1 i = slot_zero"
    by blast
  from BBPinsert_after[OF s1(1) free s1(2) s1(8) fits, of bn]
  obtain s' where s': "BBPinsert cfg env bn s = Some (?n, s')" "BBP_free s' = 0"
    "BBPsize s' = BBPsize s1" "BBPlimit s' = BBPlimit s1" "BBP_hash s' = BBP_hash s1"
    "BBP_logical s' ?n \<noteq> None" "\<forall>j. j \<noteq> ?n \<longrightarrow> BBP s' j = BBP s1 j"
    by blast
  have named: "\<forall>i. 0 < i \<and> i < ?n + 1 \<longrightarrow> BBP_logical s' i \<noteq> None"
  proof (intro allI impI)
    fix i assume i: "0 < i \<and> i < ?n + 1"
    show "BBP_logical s' i \<noteq> None"
    proof (cases "i = ?n")
      case True
      then show ?thesis using s'(6) by simp
    next
      case False
      with i have "0 < i \<and> i < ?n" by simp
      with s1(9) have "BBP_logical s1 i \<noteq> None" by blast
      with False s'(7) show ?thesis by (simp add: BBP_logical_def)
    qed
  qed
  have zero: "\<forall>i. ?n + 1 \<le> i \<and> i < BBPlimit s1 \<longrightarrow> BBP s' i = slot_zero"
    using s'(7) s1(10) by simp
  have "pool_inv cfg s'"
    using s' s1 pos named zero by (simp add: pool_inv_def)
  with s'(1) s'(3) s1(3) show ?thesis by simp
qed

lemma upt_shift: "map (\<lambda>k. n + int k) [0 ..< Suc m] = n # map (\<lambda>k. (n + 1) + int k) [0 ..< m]"
proof -
  have "[0 ..< Suc m] = 0 # [Suc 0 ..< Suc m]"
    by (rule upt_conv_Cons) simp
  then have "[0 ..< Suc m] = 0 # map Suc [0 ..< m]"
    by (simp only: map_Suc_upt)
  then show ?thesis by (simp add: comp_def del: upt_Suc)
qed

lemma BBPinsert_all_steps:
  assumes "pool_inv cfg s"
    and "BBPsize s + int (length bns) \<le> int (N_BBPINIT cfg * BBPINIT cfg)"
    and "1 \<le> BBPINITLOG cfg" and "\<forall>n. \<not> zalloc_fails env n" and "names_fit cfg"
  shows "\<exists>s'. BBPinsert_all cfg env bns s =
               Some (map (\<lambda>k. BBPsize s + int k) [0 ..< length bns], s') \<and>
          pool_inv cfg s' \<and> BBPsize s' = BBPsize s + int (length bns)"
  using assms
proof (induction bns arbitrary: s)
  case Nil
  then show ?case by simp
next
  case (Cons bn bns)
  have lim: "BBPsize s < int (N_BBPINIT cfg * BBPINIT cfg)" using Cons.prems(2) by simp
  from BBPinsert_step[OF Cons.prems(1) lim Cons.prems(3,4,5), of bn]
  obtain s1 where s1: "BBPinsert cfg env bn s = Some (BBPsize s, s1)" "pool_inv cfg s1"
    "BBPsize s1 = BBPsize s + 1"
    by blast
  have "BBPsize s1 + int (length bns) \<le> int (N_BBPINIT cfg * BBPINIT cfg)"
    using Cons.prems(2) s1(3) by simp
  from Cons.IH[OF s1(2) this Cons.prems(3,4,5)]
  obtain s' where s': "BBPinsert_all cfg env bns s1 =
      Some (map (\<lambda>k. BBPsize s1 + int k) [0 ..< length bns], s')" "pool_inv cfg s'"
    "BBPsize s' = BBPsize s1 + int (length bns)"
    by blast
  have "BBPinsert_all cfg env (bn # bns) s =
        Some (BBPsize s # map (\<lambda>k. BBPsize s1 + int k) [0 ..< length bns], s')"
    using s1(1) s'(1) by simp
  then have "BBPinsert_all cfg env (bn # bns) s =
        Some (map (\<lambda>k. BBPsize s + int k) [0 ..< length (bn # bns)], s')"
    using s1(3) upt_shift[of "BBPsize s" "length bns"] by simp
  with s'(2,3) s1(3) show ?case by simp
qed

lemma BBPinit_empty_inv:
  assumes "1 \<le> N_BBPINIT cfg" "1 \<le> BBPINITLOG cfg" "\<forall>n. \<not> zalloc_fails env n"
  shows "\<exists>s'. BBPinit_empty cfg env s = Some (GDK_SUCCEED, s') \<and> pool_inv cfg s' \<and> BBPsize s' = 1"
proof -
  let ?B = "int (BBPINIT cfg)"
  define s0 where "s0 = s\<lparr>BBP_free := 0, BBPlimit := 0, BBP := (\<lambda>_. slot_zero)\<rparr>"
  have B2: "2 \<le> ?B"
  proof -
    have "(2::int) ^ 1 \<le> 2 ^ BBPINITLOG cfg" using assms(2) by (intro power_increasing) simp_all
    then show ?thesis by (simp add: BBPINIT_def)
  qed
  have "?B * 1 \<le> ?B * int (N_BBPINIT cfg)" using assms(1) B2 by (intro mult_left_mono) simp_all
  then have NB: "?B \<le> int (N_BBPINIT cfg * BBPINIT cfg)" by (simp add: mult.commute)
  have blocks: "BBPextend_blocks cfg env 1 s0 = (GDK_SUCCEED, alloc_block cfg s0)"
    using B2 assms(3) by (intro BBPextend_blocks_one) (simp_all add: s0_def)
  have lt: "1 < int (N_BBPINIT cfg * BBPINIT cfg)" using NB B2 by linarith
  have ext: "BBPextend cfg env 0 False 1 s0 = Some (GDK_SUCCEED, alloc_block cfg s0)"
    using lt blocks by (simp add: BBPextend_def)
  define s1 where "s1 = (alloc_block cfg s0)\<lparr>BBPsize := 1\<rparr>"
  define s2 where "s2 = s1\<lparr>BBP_hash := Some (\<lambda>_. 0), BBP_mask := BBP_mask_loop 1 (BBPlimit s1) - 1\<rparr>"
  have "BBPinithash env 0 1 s1 = Some (GDK_SUCCEED, s2)"
    using assms(3) by (simp add: BBPinithash_def Let_def s2_def)
  then have "BBPinit_empty cfg env s = Some (GDK_SUCCEED, s2)"
    using ext by (simp add: BBPinit_empty_def s0_def s1_def)
  moreover have "pool_inv cfg s2"
    using NB B2 by (auto simp: pool_inv_def s2_def s1_def s0_def alloc_block_def)
  moreover have "BBPsize s2 = 1" by (simp add: s2_def s1_def)
  ultimately show ?thesis by blast
qed

text \<open>
  A configuration with two blocks of two slots, so that the limit is 4, and the static
  values of the pool before \<^verbatim>\<open>BBPinit\<close>.
\<close>

definition cfg_small :: config where
  "cfg_small = cfg64\<lparr>N_BBPINIT := 2, BBPINITLOG := 1\<rparr>"

definition pool_static :: bbp_state where
  "pool_static = \<lparr>BBP = (\<lambda>_. slot_zero), BBPlimit = 0, BBPsize = 0,
     BBP_free = 0, BBP_hash = None, BBP_mask = 0,
     bats = (\<lambda>_. bat_ex False), heaps = (\<lambda>_. heap_ex False), locked_by = 0, BBPlogno = 0,
     BBPtransid = 0, backup_files = 0, backup_dir = 0, backup_subdir = 0, BBPunloadCnt = 0,
     farm_dirname = (\<lambda>_. None)(0 := Some ''db''), fs = fs_empty, errors = []\<rparr>"

lemma BBPinsert_all_snoc:
  "BBPinsert_all cfg env (bns @ [bn]) s =
    do {
      (js, s2) \<leftarrow> BBPinsert_all cfg env bns s;
      (i, s3) \<leftarrow> BBPinsert cfg env bn s2;
      Some (js @ [i], s3)
    }"
proof (induction bns arbitrary: s)
  case Nil
  show ?case by (auto split: Option.bind_splits)
next
  case (Cons b bns)
  show ?case
    by (auto simp: Cons.IH split: Option.bind_splits)
qed

lemma upt_from_1: "map (\<lambda>k. 1 + int k) [0 ..< m] = map int [1 ..< Suc m]"
proof -
  have "[1 ..< Suc m] = map Suc [0 ..< m]" by (simp only: map_Suc_upt One_nat_def)
  then show ?thesis by (simp add: comp_def del: upt_Suc)
qed

lemma BBPinsert_all_limit:
  assumes N: "1 \<le> N_BBPINIT cfg" and B: "1 \<le> BBPINITLOG cfg"
    and za: "\<forall>n. \<not> zalloc_fails env n" and fit: "names_fit cfg"
    and len: "length bns = N_BBPINIT cfg * BBPINIT cfg - 1"
  shows "\<exists>s1 s2. BBPinit_empty cfg env s = Some (GDK_SUCCEED, s1) \<and> BBPsize s1 = 1 \<and>
          BBPinsert_all cfg env bns s1 = Some (map int [1 ..< N_BBPINIT cfg * BBPINIT cfg], s2) \<and>
          BBPsize s2 = int (N_BBPINIT cfg * BBPINIT cfg) \<and>
          (\<forall>bn. BBPinsert cfg env bn s2 =
                  Some (0, GDKerror ''trying to extend BAT pool beyond the limit'' s2))"
proof -
  let ?M = "N_BBPINIT cfg * BBPINIT cfg"
  have M: "1 \<le> ?M" using N by (simp add: BBPINIT_def)
  from BBPinit_empty_inv[OF N B za, of s]
  obtain s1 where s1: "BBPinit_empty cfg env s = Some (GDK_SUCCEED, s1)" "pool_inv cfg s1"
    "BBPsize s1 = 1"
    by blast
  have "BBPsize s1 + int (length bns) \<le> int ?M" using len M s1(3) by simp
  from BBPinsert_all_steps[OF s1(2) this B za fit]
  obtain s2 where s2: "BBPinsert_all cfg env bns s1 =
      Some (map (\<lambda>k. BBPsize s1 + int k) [0 ..< length bns], s2)" "pool_inv cfg s2"
    "BBPsize s2 = BBPsize s1 + int (length bns)"
    by blast
  have sz: "BBPsize s2 = int ?M" using s2(3) s1(3) len M by simp
  have "Suc (length bns) = ?M" using len M by simp
  then have res: "map (\<lambda>k. BBPsize s1 + int k) [0 ..< length bns] = map int [1 ..< ?M]"
    using upt_from_1[of "length bns"] s1(3) by simp
  from s2(2) sz have full: "BBP_free s2 = 0" "BBPsize s2 = BBPlimit s2"
    by (simp_all add: pool_inv_def)
  have "\<forall>bn. BBPinsert cfg env bn s2 =
          Some (0, GDKerror ''trying to extend BAT pool beyond the limit'' s2)"
    using BBPinsert_full[OF full, of cfg env] sz by simp
  with s1(1,3) s2(1) res sz show ?thesis by simp
qed

lemma names_fit_small: "names_fit cfg_small"
proof -
  have set: "{1 ..< (4::int)} = {1, 2, 3}" by auto
  have nats: "nat 2 = 2" "nat 3 = 3" by simp_all
  show ?thesis
    by (simp add: names_fit_def cfg_small_def cfg64_def BBPINIT_def set tmp_name_def octal.simps
        digit_char_def BBPgetsubdir_def)
qed

text \<open>
  C5.  The limit \<open>N_BBPINIT * BBPINIT\<close> is tested on entry to \<^verbatim>\<open>BBPextend\<close>, with
  \<^verbatim>\<open>newsize >= N_BBPINIT * BBPINIT\<close>, and slot 0 is never handed out.  So, starting from
  the empty pool (\<open>BBPsize = 1\<close>), when blocks have at least two slots, no allocation of
  memory fails and the names fit: \<open>N_BBPINIT * BBPINIT - 1\<close> calls of \<^verbatim>\<open>BBPinsert\<close> succeed
  and return the ids 1, 2, ... in order; \<open>BBPsize\<close> is then \<open>N_BBPINIT * BBPINIT\<close>; and the
  next call returns 0 and leaves the pool as it was, except that the error
  "trying to extend BAT pool beyond the limit" has been logged.
\<close>

theorem slot_allocation_bound:
  assumes "1 \<le> N_BBPINIT cfg" and "1 \<le> BBPINITLOG cfg"
    and "\<forall>n. \<not> zalloc_fails env n" and "names_fit cfg"
    and "length bns = N_BBPINIT cfg * BBPINIT cfg - 1"
  shows "\<exists>s1 s2. BBPinit_empty cfg env s = Some (GDK_SUCCEED, s1) \<and> BBPsize s1 = 1 \<and>
          BBPinsert_all cfg env bns s1 = Some (map int [1 ..< N_BBPINIT cfg * BBPINIT cfg], s2) \<and>
          BBPsize s2 = int (N_BBPINIT cfg * BBPINIT cfg) \<and>
          BBPinsert cfg env bn s2 =
            Some (0, GDKerror ''trying to extend BAT pool beyond the limit'' s2) \<and>
          BBPinsert_all cfg env (bns @ [bn]) s1 =
            Some (map int [1 ..< N_BBPINIT cfg * BBPINIT cfg] @ [0],
                  GDKerror ''trying to extend BAT pool beyond the limit'' s2)"
proof -
  from BBPinsert_all_limit[OF assms, of s]
  obtain s1 s2 where a: "BBPinit_empty cfg env s = Some (GDK_SUCCEED, s1)" "BBPsize s1 = 1"
    "BBPinsert_all cfg env bns s1 = Some (map int [1 ..< N_BBPINIT cfg * BBPINIT cfg], s2)"
    "BBPsize s2 = int (N_BBPINIT cfg * BBPINIT cfg)"
    "\<forall>bn. BBPinsert cfg env bn s2 =
            Some (0, GDKerror ''trying to extend BAT pool beyond the limit'' s2)"
    by blast
  have "BBPinsert_all cfg env (bns @ [bn]) s1 =
            Some (map int [1 ..< N_BBPINIT cfg * BBPINIT cfg] @ [0],
                  GDKerror ''trying to extend BAT pool beyond the limit'' s2)"
    using a(3) a(5) by (simp add: BBPinsert_all_snoc)
  with a show ?thesis by blast
qed

lemma cfg_small_limit: "N_BBPINIT cfg_small * BBPINIT cfg_small = 4"
  by (simp add: cfg_small_def cfg64_def BBPINIT_def)

lemma ids_small: "map int [1 ..< 4] = [1, 2, 3]"
  by (simp add: upt_rec)

theorem slot_allocation_bound_witness:
  "\<exists>s1 s2. BBPinit_empty cfg_small env_ex pool_static = Some (GDK_SUCCEED, s1) \<and> BBPsize s1 = 1 \<and>
     BBPinsert_all cfg_small env_ex [0, 1, 2] s1 = Some ([1, 2, 3], s2) \<and>
     BBPsize s2 = 4 \<and>
     BBPinsert cfg_small env_ex 3 s2 =
       Some (0, GDKerror ''trying to extend BAT pool beyond the limit'' s2) \<and>
     BBPinsert_all cfg_small env_ex [0, 1, 2, 3] s1 =
       Some ([1, 2, 3, 0], GDKerror ''trying to extend BAT pool beyond the limit'' s2)"
proof -
  have N: "1 \<le> N_BBPINIT cfg_small" "1 \<le> BBPINITLOG cfg_small"
    by (simp_all add: cfg_small_def)
  have za: "\<forall>n. \<not> zalloc_fails env_ex n" by simp
  have len: "length [0, 1, 2::nat] = N_BBPINIT cfg_small * BBPINIT cfg_small - 1"
    by (simp add: cfg_small_limit)
  from slot_allocation_bound[OF N za names_fit_small len, of pool_static 3]
  show ?thesis
    unfolding cfg_small_limit ids_small by (simp del: BBPinsert_all.simps)
qed

text \<open>
  With a limit of 4 slots, three allocations succeed and the fourth returns 0: the
  number of allocations that succeed is one less than the limit.
\<close>

theorem fourth_allocation_of_four_fails:
  "N_BBPINIT cfg_small * BBPINIT cfg_small = 4 \<and>
   (\<exists>s1 s2. BBPinit_empty cfg_small env_ex pool_static = Some (GDK_SUCCEED, s1) \<and>
     BBPinsert_all cfg_small env_ex [0, 1, 2, 3] s1 = Some ([1, 2, 3, 0], s2))"
proof -
  have N: "1 \<le> N_BBPINIT cfg_small" "1 \<le> BBPINITLOG cfg_small"
    by (simp_all add: cfg_small_def)
  have za: "\<forall>n. \<not> zalloc_fails env_ex n" by simp
  have len: "length [0, 1, 2::nat] = N_BBPINIT cfg_small * BBPINIT cfg_small - 1"
    by (simp add: cfg_small_limit)
  from BBPinsert_all_limit[OF N za names_fit_small len, of pool_static]
  obtain s1 s2 where a: "BBPinit_empty cfg_small env_ex pool_static = Some (GDK_SUCCEED, s1)"
    "BBPinsert_all cfg_small env_ex [0, 1, 2] s1 = Some ([1, 2, 3], s2)"
    "\<forall>bn. BBPinsert cfg_small env_ex bn s2 =
            Some (0, GDKerror ''trying to extend BAT pool beyond the limit'' s2)"
    unfolding cfg_small_limit ids_small by blast
  have "BBPinsert_all cfg_small env_ex ([0, 1, 2] @ [3]) s1 =
          Some ([1, 2, 3] @ [0], GDKerror ''trying to extend BAT pool beyond the limit'' s2)"
    unfolding BBPinsert_all_snoc using a(2) a(3) by simp
  then have "BBPinsert_all cfg_small env_ex [0, 1, 2, 3] s1 =
          Some ([1, 2, 3, 0], GDKerror ''trying to extend BAT pool beyond the limit'' s2)"
    by (simp del: BBPinsert_all.simps)
  with a(1) cfg_small_limit show ?thesis by blast
qed

subsection \<open>A reference to a slot that has just been handed out\<close>

text \<open>
  \<^verbatim>\<open>BBPinsert\<close> leaves the new slot with the status \<open>DELETING | HOT\<close> and without a
  descriptor.  In that state the id passes \<^verbatim>\<open>BBPcheck\<close>, and a call of \<^verbatim>\<open>BBPfix\<close> or
  \<^verbatim>\<open>BBPretain\<close> that needs the lock waits for \<open>DELETING\<close>: it does not return 0, it
  does not return.
\<close>

theorem fix_of_new_slot_waits:
  "\<exists>s1 s2. BBPinit_empty cfg_small env_ex pool_static = Some (GDK_SUCCEED, s1) \<and>
     BBPinsert cfg_small env_ex 0 s1 = Some (1, s2) \<and>
     BBP_desc s2 1 = None \<and> BBPcheck s2 1 = 1 \<and> BBP_status s2 1 = {BBPDELETING, BBPHOT} \<and>
     BBPfix 2 env_ex 1 s2 = None \<and> BBPretain 2 env_ex 1 s2 = None"
proof -
  define s0 where "s0 = pool_static\<lparr>BBP_free := 0, BBPlimit := 0, BBP := (\<lambda>_. slot_zero)\<rparr>"
  have B: "BBPINIT cfg_small = 2" by (simp add: BBPINIT_def cfg_small_def)
  have blocks: "BBPextend_blocks cfg_small env_ex 1 s0 = (GDK_SUCCEED, alloc_block cfg_small s0)"
    by (intro BBPextend_blocks_one) (simp_all add: s0_def B)
  define s1 where "s1 = (alloc_block cfg_small s0)\<lparr>BBPsize := 1, BBP_hash := Some (\<lambda>_. 0),
                           BBP_mask := BBP_mask_loop 1 (BBPlimit (alloc_block cfg_small s0)) - 1\<rparr>"
  have init: "BBPinit_empty cfg_small env_ex pool_static = Some (GDK_SUCCEED, s1)"
    using blocks
    by (simp add: BBPinit_empty_def BBPextend_def BBPinithash_def cfg_small_limit s0_def[symmetric]
        s1_def Let_def)
  have f1: "BBP_free s1 = 0" "BBPsize s1 = 1" "BBPlimit s1 = 2" "BBP s1 1 = slot_zero"
    "locked_by s1 = 0" "farm_dirname s1 0 = Some ''db''"
    by (simp_all add: s1_def alloc_block_def s0_def pool_static_def B)
  obtain s2 where ins: "BBPinsert cfg_small env_ex 0 s1 = Some (1, s2)"
    and slot: "BBP s2 1 = slot_zero\<lparr>status := {BBPDELETING, BBPHOT}, cache := None, desc := None,
                 refs := 1, lrefs := 0, pid := 1, bak := ''tmp_1'', logical' := Some ''tmp_1'',
                 physical := ''1''\<rparr>"
    and rest: "BBPsize s2 = 2" "locked_by s2 = 0"
    using f1
    by (simp add: BBPinsert_def maybeextend_def Let_def upd_slot_def acc_defs GDKinmemory_def
        slot_zero_def tmp_name_def octal.simps digit_char_def BBPgetsubdir_def cfg_small_def cfg64_def)
  have d: "BBP_desc s2 1 = None" by (simp add: BBP_desc_def slot slot_zero_def)
  have c: "BBPcheck s2 1 = 1"
    by (simp add: BBPcheck_def is_bat_nil_def bat_nil_def BBP_logical_def slot rest)
  have st: "BBP_status s2 1 = {BBPDELETING, BBPHOT}" by (simp add: BBP_status_def slot)
  have fx: "BBPfix 2 env_ex 1 s2 = None" "BBPretain 2 env_ex 1 s2 = None"
    using d c st rest
    by (simp_all add: BBPfix_def BBPretain_def incref_nodesc need_lock_def BBPUNSTABLE_def)
  from init ins d c st fx show ?thesis by blast
qed

subsection \<open>The file system\<close>

text \<open>
  The calls of the operating system are not part of the sources.  They are given the
  usual meaning on the \<open>filesys\<close> of the state: a path exists when its last name is in
  the list of its directory, or when it is a directory itself; a call that fails returns
  its \<^verbatim>\<open>errno\<close> and changes nothing.  \<^verbatim>\<open>opendir\<close> gives the names that the
  \<^verbatim>\<open>readdir\<close> calls will return, as they are when the directory is opened.
\<close>

datatype errno = ENOENT | EEXIST | EACCES | ENOTEMPTY | ENOTDIR | EISDIR

definition path_dir :: "string \<Rightarrow> string" where
  "path_dir p = rev (drop 1 (dropWhile (\<lambda>c. c \<noteq> CHR ''/'') (rev p)))"

definition path_base :: "string \<Rightarrow> string" where
  "path_base p = rev (takeWhile (\<lambda>c. c \<noteq> CHR ''/'') (rev p))"

definition fs_entry :: "filesys \<Rightarrow> string \<Rightarrow> bool" where
  "fs_entry f p = (case dirs f (path_dir p) of None \<Rightarrow> False | Some l \<Rightarrow> path_base p \<in> set l)"

definition fs_exists :: "filesys \<Rightarrow> string \<Rightarrow> bool" where
  "fs_exists f p = (fs_entry f p \<or> dirs f p \<noteq> None)"

definition fs_unlink :: "string \<Rightarrow> filesys \<Rightarrow> filesys" where
  "fs_unlink p f =
    f\<lparr>dirs := ((dirs f)(path_dir p := map_option (removeAll (path_base p)) (dirs f (path_dir p))))
                (p := None)\<rparr>"

definition fs_link :: "string \<Rightarrow> string list option \<Rightarrow> filesys \<Rightarrow> filesys" where
  "fs_link p node f =
    f\<lparr>dirs := ((dirs f)(path_dir p :=
                  map_option (\<lambda>l. if path_base p \<in> set l then l else l @ [path_base p])
                    (dirs f (path_dir p))))
                (p := node)\<rparr>"

definition MT_remove :: "string \<Rightarrow> filesys \<Rightarrow> errno option \<times> filesys" where
  "MT_remove p f =
    (if \<not> fs_exists f p then (Some ENOENT, f)
     else if p \<in> denied f then (Some EACCES, f)
     else case dirs f p of
            Some (x # xs) \<Rightarrow> (Some ENOTEMPTY, f)
          | _ \<Rightarrow> (None, fs_unlink p f))"

definition MT_rmdir :: "string \<Rightarrow> filesys \<Rightarrow> errno option \<times> filesys" where
  "MT_rmdir p f =
    (if \<not> fs_exists f p then (Some ENOENT, f)
     else if p \<in> denied f then (Some EACCES, f)
     else case dirs f p of
            None \<Rightarrow> (Some ENOTDIR, f)
          | Some [] \<Rightarrow> (None, fs_unlink p f)
          | Some (x # xs) \<Rightarrow> (Some ENOTEMPTY, f))"

definition MT_mkdir :: "string \<Rightarrow> filesys \<Rightarrow> errno option \<times> filesys" where
  "MT_mkdir p f =
    (if fs_exists f p then (Some EEXIST, f)
     else if dirs f (path_dir p) = None then (Some ENOENT, f)
     else if p \<in> denied f \<or> path_dir p \<in> denied f then (Some EACCES, f)
     else (None, fs_link p (Some []) f))"

definition MT_stat :: "string \<Rightarrow> filesys \<Rightarrow> int" where
  "MT_stat p f = (if fs_exists f p then 0 else -1)"


definition opendir :: "string \<Rightarrow> filesys \<Rightarrow> errno + string list" where
  "opendir p f =
    (case dirs f p of
       None \<Rightarrow> Inl (if fs_entry f p then ENOTDIR else ENOENT)
     | Some l \<Rightarrow> if p \<in> denied f then Inl EACCES else Inr (''.'' # ''..'' # l))"

definition fs_move :: "string \<Rightarrow> string \<Rightarrow> filesys \<Rightarrow> filesys" where
  "fs_move a b f =
    (let g = fs_link b None (fs_unlink b (fs_unlink a f)) in
     g\<lparr>dirs := (\<lambda>p. if p = b \<or> take (length b + 1) p = b @ ''/''
                     then dirs f (a @ drop (length b) p)
                     else if take (length a + 1) p = a @ ''/'' then None
                     else dirs g p)\<rparr>)"

definition MT_rename :: "string \<Rightarrow> string \<Rightarrow> filesys \<Rightarrow> errno option \<times> filesys" where
  "MT_rename a b f =
    (if \<not> fs_exists f a then (Some ENOENT, f)
     else if a \<in> denied f \<or> b \<in> denied f then (Some EACCES, f)
     else if dirs f (path_dir b) = None then (Some ENOENT, f)
     else if \<not> fs_exists f b then (None, fs_move a b f)
     else case (dirs f a, dirs f b) of
            (None, None) \<Rightarrow> (None, fs_move a b f)
          | (None, Some l) \<Rightarrow> (Some EISDIR, f)
          | (Some k, None) \<Rightarrow> (Some ENOTDIR, f)
          | (Some k, Some []) \<Rightarrow> (None, fs_move a b f)
          | (Some k, Some (x # xs)) \<Rightarrow> (Some ENOTEMPTY, f))"

subsection \<open>The storage layer\<close>

text \<open>
  The directory names \<^verbatim>\<open>BATDIR\<close>, \<^verbatim>\<open>BAKDIR\<close>, \<^verbatim>\<open>SUBDIR\<close>, \<^verbatim>\<open>DELDIR\<close> and
  \<^verbatim>\<open>LEFTDIR\<close> are macros of \<^verbatim>\<open>gdk.h\<close>, and \<^verbatim>\<open>GDKfilepath\<close>, \<^verbatim>\<open>GDKmove\<close>,
  \<^verbatim>\<open>GDKunlink\<close>, \<^verbatim>\<open>GDKcreatedir\<close> and \<^verbatim>\<open>GDKremovedir\<close> are functions of the storage
  layer; neither is among the sources, and they are parameters.  \<^verbatim>\<open>GDKfilepath\<close> gives
  \<open>None\<close> when it returns NULL.
\<close>

record gdk_storage =
  BATDIR :: string
  BAKDIR :: string
  SUBDIR :: string
  DELDIR :: string
  LEFTDIR :: string
  GDKfilepath :: "int \<Rightarrow> string option \<Rightarrow> string \<Rightarrow> string option \<Rightarrow> string option"
  GDKmove :: "int \<Rightarrow> string \<Rightarrow> string \<Rightarrow> string option \<Rightarrow> string \<Rightarrow> string \<Rightarrow> string option \<Rightarrow> bool
              \<Rightarrow> bbp_state \<Rightarrow> gdk_return \<times> bbp_state"
  GDKunlink :: "int \<Rightarrow> string \<Rightarrow> string \<Rightarrow> string option \<Rightarrow> bbp_state \<Rightarrow> gdk_return \<times> bbp_state"
  GDKcreatedir :: "string \<Rightarrow> bbp_state \<Rightarrow> gdk_return \<times> bbp_state"
  GDKremovedir :: "int \<Rightarrow> string \<Rightarrow> bbp_state \<Rightarrow> gdk_return \<times> bbp_state"

subsection \<open>Recovery\<close>

text \<open>
  \<^verbatim>\<open>strrchr(name, '.')\<close>, as the index of the last dot.  \<^verbatim>\<open>force_move\<close> copies the
  name without \<^verbatim>\<open>.kill\<close> into a buffer of \<open>IDLENGTH\<close> bytes (\<^verbatim>\<open>long_str\<close>); when
  it does not fit the call has no result.  \<open>force_move_kill\<close> is the branch of
  \<^verbatim>\<open>force_move\<close> for a kill marker, \<open>force_move_rename\<close> the other one.
\<close>

definition strrchr_dot :: "string \<Rightarrow> nat option" where
  "strrchr_dot name =
    (if CHR ''.'' \<in> set name
     then Some (length name - Suc (length (takeWhile (\<lambda>c. c \<noteq> CHR ''.'') (rev name))))
     else None)"

definition force_move_kill ::
  "gdk_storage \<Rightarrow> int \<Rightarrow> string \<Rightarrow> string \<Rightarrow> string \<Rightarrow> nat \<Rightarrow> bbp_state \<Rightarrow> gdk_return \<times> bbp_state" where
  "force_move_kill sto farm srcdir dstdir name len s =
    (case GDKfilepath sto farm (Some dstdir) (take len name) None of
       None \<Rightarrow> (GDK_FAIL, s)
     | Some dstpath \<Rightarrow>
         let (e1, f1) = MT_remove dstpath (fs s) in
         if e1 \<noteq> None \<and> e1 \<noteq> Some ENOENT
         then (GDK_FAIL, GDKerror ''force_move: remove'' s)
         else
           (case GDKfilepath sto farm (Some srcdir) name None of
              None \<Rightarrow> (GDK_FAIL, s\<lparr>fs := f1\<rparr>)
            | Some killfile \<Rightarrow>
                let (e2, f2) = MT_remove killfile f1 in
                if e2 \<noteq> None then (GDK_FAIL, GDKerror ''force_move: remove'' (s\<lparr>fs := f2\<rparr>))
                else (GDK_SUCCEED, s\<lparr>fs := f2\<rparr>)))"

definition force_move_rename ::
  "gdk_storage \<Rightarrow> int \<Rightarrow> string \<Rightarrow> string \<Rightarrow> string \<Rightarrow> bbp_state \<Rightarrow> gdk_return \<times> bbp_state" where
  "force_move_rename sto farm srcdir dstdir name s =
    (let (ret, s1) = GDKmove sto farm srcdir name None dstdir name None False s in
     if ret \<noteq> GDK_SUCCEED then
       (case GDKfilepath sto farm (Some dstdir) name None of
          None \<Rightarrow> (GDK_FAIL, s1)
        | Some dstpath \<Rightarrow>
            (case GDKfilepath sto farm (Some srcdir) name None of
               None \<Rightarrow> (GDK_FAIL, s1)
             | Some srcpath \<Rightarrow>
                 let f1 = snd (MT_remove dstpath (fs s1));
                     s2 = snd (GDKcreatedir sto dstdir (s1\<lparr>fs := f1\<rparr>))
                 in GDKmove sto farm srcdir name None dstdir name None True s2))
     else (ret, s1))"

definition force_move ::
  "config \<Rightarrow> gdk_storage \<Rightarrow> int \<Rightarrow> string \<Rightarrow> string \<Rightarrow> string \<Rightarrow> bbp_state
    \<Rightarrow> (gdk_return \<times> bbp_state) option" where
  "force_move cfg sto farm srcdir dstdir name s =
    (case strrchr_dot name of
       Some len \<Rightarrow>
         if drop len name = ''.kill''
         then (if len \<ge> IDLENGTH cfg then None
               else Some (force_move_kill sto farm srcdir dstdir name len s))
         else Some (force_move_rename sto farm srcdir dstdir name s)
     | None \<Rightarrow> Some (force_move_rename sto farm srcdir dstdir name s))"

text \<open>
  \<^verbatim>\<open>recover_dir\<close>; the loop of \<^verbatim>\<open>BBPrecover\<close> (\<open>recover_id\<close> is the id it reads from
  the name up to the first dot, \<open>BBPrecover_entry\<close> one round, on the pair of \<open>ret\<close> and
  \<open>dirseen\<close> and the state); what follows the loop (\<open>BBPrecover_finish\<close>); and
  \<^verbatim>\<open>BBPrecover\<close>.  The test \<^verbatim>\<open>i == 0 || i >= BBPsize || !BBPvalid(i)\<close> reads slot
  \<open>i\<close> when the first two parts are false; for a negative \<open>i\<close> that is a read before
  the start of the array \<^verbatim>\<open>BBP\<close>, and the round has no result.
\<close>

definition recover_dir :: "gdk_storage \<Rightarrow> int \<Rightarrow> bool \<Rightarrow> bbp_state \<Rightarrow> gdk_return \<times> bbp_state" where
  "recover_dir sto farm direxists s =
    (let s1 = (if direxists
               then snd (GDKmove sto farm (BATDIR sto) ''BBP'' (Some ''dir'')
                           (BATDIR sto) ''BBP'' (Some ''bak'') False
                           (snd (GDKunlink sto farm (BATDIR sto) ''BBP'' (Some ''bak'') s)))
               else s)
     in GDKmove sto farm (BAKDIR sto) ''BBP'' (Some ''dir'') (BATDIR sto) ''BBP'' (Some ''dir'') True s1)"

definition recover_id :: "extern \<Rightarrow> string \<Rightarrow> bbp_state \<Rightarrow> int option" where
  "recover_id env path s =
    (if path \<noteq> [] \<and> GDKisdigit (hd path) then Some (long_to_bat (strtol8 path))
     else map_option (\<lambda>i. if i < 0 then - i else i) (BBP_find env path False s))"

definition BBPrecover_entry ::
  "config \<Rightarrow> extern \<Rightarrow> gdk_storage \<Rightarrow> int \<Rightarrow> string \<Rightarrow> gdk_return \<times> bool \<times> bbp_state
    \<Rightarrow> (gdk_return \<times> bool \<times> bbp_state) option" where
  "BBPrecover_entry cfg env sto farm name st =
    (case st of (ret, dirseen, s) \<Rightarrow>
     if name \<noteq> [] \<and> hd name = CHR ''.'' then
       (if name = ''.'' \<or> name = ''..'' then Some (ret, dirseen, s)
        else case GDKfilepath sto farm (Some (BAKDIR sto)) name None of
               None \<Rightarrow> Some (ret, dirseen, s)
             | Some fn \<Rightarrow> Some (ret, dirseen, s\<lparr>fs := snd (MT_remove fn (fs s))\<rparr>))
     else if name = ''BBP.dir'' then Some (ret, True, s)
     else
       let path = takeWhile (\<lambda>c. c \<noteq> CHR ''.'') name in
       if length path + 1 > IDLENGTH cfg then Some (ret, dirseen, s)
       else
         do {
           i \<leftarrow> recover_id env path s;
           if i = 0 \<or> i \<ge> BBPsize s then
             map_option (\<lambda>(r, s1). (ret, dirseen, s1))
               (force_move cfg sto farm (BAKDIR sto) (LEFTDIR sto) name s)
           else if i < 0 then None
           else if \<not> BBPvalid s i then
             map_option (\<lambda>(r, s1). (ret, dirseen, s1))
               (force_move cfg sto farm (BAKDIR sto) (LEFTDIR sto) name s)
           else
             map_option (\<lambda>(r, s1). (if r \<noteq> GDK_SUCCEED then GDK_FAIL else ret, dirseen, s1))
               (force_move cfg sto farm (BAKDIR sto) (BATDIR sto @ ''/'' @ BBPgetsubdir i) name s)
         })"

fun BBPrecover_loop ::
  "config \<Rightarrow> extern \<Rightarrow> gdk_storage \<Rightarrow> int \<Rightarrow> string list \<Rightarrow> gdk_return \<times> bool \<times> bbp_state
    \<Rightarrow> (gdk_return \<times> bool \<times> bbp_state) option" where
  "BBPrecover_loop cfg env sto farm [] st = Some st"
| "BBPrecover_loop cfg env sto farm (n # ns) st =
    do { st1 \<leftarrow> BBPrecover_entry cfg env sto farm n st; BBPrecover_loop cfg env sto farm ns st1 }"

definition BBPrecover_finish ::
  "gdk_storage \<Rightarrow> int \<Rightarrow> string \<Rightarrow> gdk_return \<times> bool \<times> bbp_state \<Rightarrow> gdk_return \<times> bbp_state" where
  "BBPrecover_finish sto farm bakdirpath st =
    (case st of (ret, dirseen, s1) \<Rightarrow>
     let (ret2, s2) =
           (if dirseen \<and> ret = GDK_SUCCEED then
              (case GDKfilepath sto farm (Some (BATDIR sto)) ''BBP'' (Some ''dir'') of
                 None \<Rightarrow> (GDK_FAIL, s1)
               | Some fn \<Rightarrow> recover_dir sto farm (MT_stat fn (fs s1) = 0) s1)
            else (ret, s1));
         (ret3, s3) =
           (if ret2 = GDK_SUCCEED then
              (let (e, f3) = MT_rmdir bakdirpath (fs s2) in
               if e \<noteq> None then (GDK_FAIL, GDKerror ''cannot remove directory'' s2)
               else (GDK_SUCCEED, s2\<lparr>fs := f3\<rparr>))
            else (ret2, s2))
     in (ret3, if ret3 \<noteq> GDK_SUCCEED then GDKerror ''recovery failed.'' s3 else s3))"

definition BBPrecover ::
  "config \<Rightarrow> extern \<Rightarrow> gdk_storage \<Rightarrow> int \<Rightarrow> bbp_state \<Rightarrow> (gdk_return \<times> bbp_state) option" where
  "BBPrecover cfg env sto farm s =
    (case (GDKfilepath sto farm None (BAKDIR sto) None, GDKfilepath sto farm None (LEFTDIR sto) None) of
       (Some bakdirpath, Some leftdirpath) \<Rightarrow>
         (case opendir bakdirpath (fs s) of
            Inl e \<Rightarrow> Some (GDK_SUCCEED, if e \<noteq> ENOENT then GDKerror ''cannot open directory'' s else s)
          | Inr names \<Rightarrow>
              let (e, f1) = MT_mkdir leftdirpath (fs s) in
              if e \<noteq> None \<and> e \<noteq> Some EEXIST
              then Some (GDK_FAIL, GDKerror ''cannot create directory'' s)
              else map_option (BBPrecover_finish sto farm bakdirpath)
                     (BBPrecover_loop cfg env sto farm names (GDK_SUCCEED, False, s\<lparr>fs := f1\<rparr>)))
     | _ \<Rightarrow> Some (GDK_FAIL, s))"



subsection \<open>Commit\<close>

















subsection \<open>An example of a storage layer and of farms\<close>

text \<open>
  Paths are \<open>db/<dir>/<name>.<ext>\<close>, with the directories laid out under \<open>db/bat\<close>;
  a move is a rename, and removing a directory removes the files in it first.
\<close>

definition GDKfilepath_ex :: "int \<Rightarrow> string option \<Rightarrow> string \<Rightarrow> string option \<Rightarrow> string option" where
  "GDKfilepath_ex farm dir name ext =
    Some (''db/'' @
          (case dir of
             None \<Rightarrow> []
           | Some d \<Rightarrow> if d = [] \<or> last d = CHR ''/'' then d else d @ ''/'') @
          name @ (case ext of None \<Rightarrow> [] | Some e \<Rightarrow> ''.'' @ e))"

definition sto_ex :: gdk_storage where
  "sto_ex = \<lparr>BATDIR = ''bat'', BAKDIR = ''bat/BACKUP'', SUBDIR = ''bat/BACKUP/SUBCOMMIT'',
     DELDIR = ''bat/DELETE_ME'', LEFTDIR = ''bat/LEFTOVERS'',
     GDKfilepath = GDKfilepath_ex,
     GDKmove = (\<lambda>farm d1 n1 e1 d2 n2 e2 report s.
        case (GDKfilepath_ex farm (Some d1) n1 e1, GDKfilepath_ex farm (Some d2) n2 e2) of
          (Some a, Some b) \<Rightarrow>
            (let (e, f) = MT_rename a b (fs s) in
             (if e = None then GDK_SUCCEED else GDK_FAIL, s\<lparr>fs := f\<rparr>))
        | _ \<Rightarrow> (GDK_FAIL, s)),
     GDKunlink = (\<lambda>farm d n e s.
        case GDKfilepath_ex farm (Some d) n e of
          Some a \<Rightarrow> (let (e, f) = MT_remove a (fs s) in
                     (if e = None then GDK_SUCCEED else GDK_FAIL, s\<lparr>fs := f\<rparr>))
        | None \<Rightarrow> (GDK_FAIL, s)),
     GDKcreatedir = (\<lambda>d s. (GDK_SUCCEED, s)),
     GDKremovedir = (\<lambda>farm d s.
        case GDKfilepath_ex farm None d None of
          Some a \<Rightarrow>
            (case dirs (fs s) a of
               None \<Rightarrow> (GDK_SUCCEED, s)
             | Some l \<Rightarrow>
                 (let f1 = fold (\<lambda>n f. snd (MT_remove (a @ ''/'' @ n) f)) l (fs s);
                      (e, f2) = MT_rmdir a f1
                  in (if e = None then GDK_SUCCEED else GDK_FAIL, s\<lparr>fs := f2\<rparr>)))
        | None \<Rightarrow> (GDK_FAIL, s))\<rparr>"

lemma sto_ex_simps [simp]:
  "BATDIR sto_ex = ''bat''" "BAKDIR sto_ex = ''bat/BACKUP''" "SUBDIR sto_ex = ''bat/BACKUP/SUBCOMMIT''"
  "DELDIR sto_ex = ''bat/DELETE_ME''" "LEFTDIR sto_ex = ''bat/LEFTOVERS''"
  "GDKfilepath sto_ex = GDKfilepath_ex"
  by (simp_all add: sto_ex_def)


lemma pool_ex_more [simp]:
  "backup_files (pool_ex r b h) = 0" "backup_dir (pool_ex r b h) = 0"
  "backup_subdir (pool_ex r b h) = 0" "BBPlogno (pool_ex r b h) = 0"
  "BBPtransid (pool_ex r b h) = 0" "fs (pool_ex r b h) = fs_empty"
  by (simp_all add: pool_ex_def)

lemma upd_slot_more [simp]:
  "backup_files (upd_slot i f s) = backup_files s" "backup_dir (upd_slot i f s) = backup_dir s"
  "backup_subdir (upd_slot i f s) = backup_subdir s" "BBPlogno (upd_slot i f s) = BBPlogno s"
  "BBPtransid (upd_slot i f s) = BBPtransid s" "bats (upd_slot i f s) = bats s"
  "heaps (upd_slot i f s) = heaps s" "BBPsize (upd_slot i f s) = BBPsize s"
  "farm_dirname (upd_slot i f s) = farm_dirname s"
  by (simp_all add: upd_slot_def)


text \<open>
  A farm with the catalog and one heap file and no backup directory, with a pool whose
  slot 1 is a persistent BAT that is loaded and dirty.
\<close>

definition fs_live :: filesys where
  "fs_live = \<lparr>dirs = (\<lambda>_. None)(''db'' := Some [''bat''],
       ''db/bat'' := Some [''BBP.dir'', ''1.tail'']),
     denied = {}\<rparr>"

definition pool_sync :: bbp_state where
  "pool_sync = (pool_ex (slot_ex {BBPLOADED, BBPEXISTING} 0 1 (Some 0)) (bat_ex True) (heap_ex True))\<lparr>fs := fs_live\<rparr>"



lemma path_simps [simp]:
  "path_dir ''db/bat/BACKUP'' = ''db/bat''" "path_base ''db/bat/BACKUP'' = ''BACKUP''"
  "path_dir ''db/bat/LEFTOVERS'' = ''db/bat''" "path_base ''db/bat/LEFTOVERS'' = ''LEFTOVERS''"
  "path_dir ''db/bat/1.tail.new'' = ''db/bat''" "path_base ''db/bat/1.tail.new'' = ''1.tail.new''"
  "path_dir ''db/bat/77.tail.new'' = ''db/bat''" "path_base ''db/bat/77.tail.new'' = ''77.tail.new''"
  "path_dir ''db/bat/LEFTOVERS/77.tail.new'' = ''db/bat/LEFTOVERS''"
  "path_base ''db/bat/LEFTOVERS/77.tail.new'' = ''77.tail.new''"
  "path_dir ''db/bat/BACKUP/1.tail.new.kill'' = ''db/bat/BACKUP''"
  "path_base ''db/bat/BACKUP/1.tail.new.kill'' = ''1.tail.new.kill''"
  "path_dir ''db/bat/BACKUP/77.tail.new.kill'' = ''db/bat/BACKUP''"
  "path_base ''db/bat/BACKUP/77.tail.new.kill'' = ''77.tail.new.kill''"
  by (simp_all add: path_dir_def path_base_def)

lemma fp [simp]:
  "GDKfilepath_ex 0 None ''bat/BACKUP'' None = Some ''db/bat/BACKUP''"
  "GDKfilepath_ex 0 None ''bat/LEFTOVERS'' None = Some ''db/bat/LEFTOVERS''"
  "GDKfilepath_ex 0 (Some ''bat/BACKUP'') ''1.tail.new.kill'' None = Some ''db/bat/BACKUP/1.tail.new.kill''"
  "GDKfilepath_ex 0 (Some ''bat/BACKUP'') ''77.tail.new.kill'' None = Some ''db/bat/BACKUP/77.tail.new.kill''"
  "GDKfilepath_ex 0 (Some ''bat/'') ''1.tail.new'' None = Some ''db/bat/1.tail.new''"
  "GDKfilepath_ex 0 (Some ''bat/LEFTOVERS'') ''77.tail.new'' None = Some ''db/bat/LEFTOVERS/77.tail.new''"
  by (simp_all add: GDKfilepath_ex_def)

lemma ids [simp]:
  "recover_id env_ex ''1'' s = Some 1" "recover_id env_ex ''77'' s = Some 63"
  by (simp_all add: recover_id_def GDKisdigit_def strtol8_def long_to_bat_def isspace_def is_octal_def Let_def)

subsection \<open>Recovery without a backup directory\<close>

text \<open>
  C9.  When nothing exists at the path of the backup directory, \<^verbatim>\<open>opendir\<close> fails with
  \<^verbatim>\<open>ENOENT\<close> and \<^verbatim>\<open>BBPrecover\<close> returns \<^verbatim>\<open>GDK_SUCCEED\<close> with the state, files
  included, as it was.  The two path names have been allocated before; if one of them is
  NULL the function returns \<^verbatim>\<open>GDK_FAIL\<close>, also without a change.
\<close>

theorem BBPrecover_without_backup:
  assumes "GDKfilepath sto farm None (BAKDIR sto) None = Some bakpath"
    and "GDKfilepath sto farm None (LEFTDIR sto) None = Some leftpath"
    and "\<not> fs_exists (fs s) bakpath"
  shows "BBPrecover cfg env sto farm s = Some (GDK_SUCCEED, s)"
  using assms by (simp add: BBPrecover_def opendir_def fs_exists_def)

theorem BBPrecover_without_backup_witness:
  "BBPrecover cfg64 env_ex sto_ex 0 pool_sync = Some (GDK_SUCCEED, pool_sync)"
  using BBPrecover_without_backup[of sto_ex 0 "''db/bat/BACKUP''" "''db/bat/LEFTOVERS''"
          pool_sync cfg64 env_ex]
  by (simp add: GDKfilepath_ex_def fs_exists_def fs_entry_def path_dir_def path_base_def
      pool_sync_def fs_live_def)

subsection \<open>Kill markers\<close>









lemma force_move_kill_ret:
  "fst (force_move_kill sto farm srcdir dstdir name len s) = GDK_SUCCEED \<or>
   fst (force_move_kill sto farm srcdir dstdir name len s) = GDK_FAIL"
  by (cases "fst (force_move_kill sto farm srcdir dstdir name len s)") simp_all












lemma fp_both [simp]:
  "GDKfilepath_ex 0 (Some ''bat/BACKUP'') ''1.tail.new'' None = Some ''db/bat/BACKUP/1.tail.new''"
  "path_dir ''db/bat/BACKUP/1.tail.new'' = ''db/bat/BACKUP''"
  "path_base ''db/bat/BACKUP/1.tail.new'' = ''1.tail.new''"
  by (simp_all add: GDKfilepath_ex_def path_dir_def path_base_def)


subsection \<open>The switchover of a commit\<close>







subsection \<open>The end of a commit\<close>







end
